theory Spec2Isabelle
  imports Complex_Main "HOL-Library.Sublist"
begin

section \<open>Python values and exceptions\<close>

text \<open>
  The handlers of \<^verbatim>\<open>app.py\<close> work on values parsed from JSON: the request body
  (\<^verbatim>\<open>request.get_json()\<close>), the configuration document (\<^verbatim>\<open>load_config\<close>) and what the
  imported library functions return. A JSON object is an association list in the order of
  its keys; a parsed object has no repeated key. Numbers are finite (RFC 8259): an integer
  literal is \<open>JInt\<close>, any other number is \<open>JFloat\<close> with its exact value. Strings are
  ASCII text.
\<close>

datatype json =
    JNull
  | JBool bool
  | JInt int
  | JFloat rat
  | JStr string
  | JArr "json list"
  | JObj "(string \<times> json) list"

text \<open>
  Exceptions: the classes that the \<^verbatim>\<open>except\<close> clauses of \<^verbatim>\<open>app.py\<close> tell apart, and one
  class for every other subclass of \<^verbatim>\<open>Exception\<close>. \<open>FileNotFoundError\<close> is a subclass of
  \<open>OSError\<close>; \<open>OSError\<close> below stands for the other instances of it. The string is
  \<^verbatim>\<open>str(e)\<close>.
\<close>

datatype exn_class =
    FileNotFoundError
  | OSError
  | KeyError
  | IndexError
  | ValueError
  | TypeError
  | AttributeError
  | OtherException

datatype py_exn = Exn exn_class string

fun exn_class_of :: "py_exn \<Rightarrow> exn_class" where
  "exn_class_of (Exn c t) = c"

fun exn_str :: "py_exn \<Rightarrow> string" where
  "exn_str (Exn c t) = t"

definition is_OSError :: "py_exn \<Rightarrow> bool" where
  "is_OSError e = (exn_class_of e = FileNotFoundError \<or> exn_class_of e = OSError)"

text \<open>Python truth value testing (\<^verbatim>\<open>if not x\<close>).\<close>

fun truthy :: "json \<Rightarrow> bool" where
  "truthy JNull = False"
| "truthy (JBool b) = b"
| "truthy (JInt n) = (n \<noteq> 0)"
| "truthy (JFloat r) = (r \<noteq> 0)"
| "truthy (JStr s) = (s \<noteq> [])"
| "truthy (JArr xs) = (xs \<noteq> [])"
| "truthy (JObj kvs) = (kvs \<noteq> [])"

text \<open>
  Python \<^verbatim>\<open>==\<close> on parsed JSON: \<^verbatim>\<open>True == 1 == 1.0\<close>, lists are compared element by
  element, dictionaries as mappings.
\<close>

fun py_num :: "json \<Rightarrow> rat option" where
  "py_num (JBool b) = Some (if b then 1 else 0)"
| "py_num (JInt n) = Some (of_int n)"
| "py_num (JFloat r) = Some r"
| "py_num v = None"

fun py_eq :: "json \<Rightarrow> json \<Rightarrow> bool" where
  "py_eq (JArr xs) (JArr ys) = list_all2 py_eq xs ys"
| "py_eq (JObj a) (JObj b) =
     (length a = length b \<and>
      list_all (\<lambda>(k, v). case map_of b k of None \<Rightarrow> False | Some v' \<Rightarrow> py_eq v v') a)"
| "py_eq (JStr s) (JStr t) = (s = t)"
| "py_eq JNull JNull = True"
| "py_eq a b = (case (py_num a, py_num b) of (Some x, Some y) \<Rightarrow> x = y | _ \<Rightarrow> False)"

fun hashable :: "json \<Rightarrow> bool" where
  "hashable (JArr xs) = False"
| "hashable (JObj kvs) = False"
| "hashable v = True"

text \<open>\<^verbatim>\<open>d.get(key, default)\<close> on a dictionary.\<close>

definition dict_get :: "(string \<times> json) list \<Rightarrow> string \<Rightarrow> json \<Rightarrow> json" where
  "dict_get kvs k dflt = (case map_of kvs k of None \<Rightarrow> dflt | Some v \<Rightarrow> v)"

subsection \<open>Decimal text of integers, integer literals\<close>

function string_of_nat :: "nat \<Rightarrow> string" where
  "string_of_nat n =
     (if n < 10 then [''0123456789'' ! n]
      else string_of_nat (n div 10) @ [''0123456789'' ! (n mod 10)])"
  by pat_completeness auto
termination
  by (relation "measure (\<lambda>n. n)") auto

definition string_of_int :: "int \<Rightarrow> string" where
  "string_of_int i = (if i < 0 then CHR ''-'' # string_of_nat (nat (- i)) else string_of_nat (nat i))"

text \<open>
  The whitespace that \<^verbatim>\<open>int(s)\<close> skips at both ends of \<^verbatim>\<open>s\<close>: the codes 9 to 13 and the
  space.
\<close>

definition is_space :: "char \<Rightarrow> bool" where
  "is_space c = (let n = of_char c :: nat in (9 \<le> n \<and> n \<le> 13) \<or> n = 32)"

definition strip :: "string \<Rightarrow> string" where
  "strip s = rev (dropWhile is_space (rev (dropWhile is_space s)))"

definition digit_val :: "char \<Rightarrow> nat option" where
  "digit_val c = (let n = of_char c :: nat in if 48 \<le> n \<and> n \<le> 57 then Some (n - 48) else None)"

text \<open>
  Digits with single underscores between them (\<^verbatim>\<open>"1_000"\<close>); \<open>prev\<close> says that the
  character before was a digit.
\<close>

fun int_digits :: "nat \<Rightarrow> bool \<Rightarrow> string \<Rightarrow> nat option" where
  "int_digits acc prev [] = (if prev then Some acc else None)"
| "int_digits acc prev (c # cs) =
     (if c = CHR ''_'' then (if prev \<and> cs \<noteq> [] then int_digits acc False cs else None)
      else case digit_val c of
             None \<Rightarrow> None
           | Some d \<Rightarrow> int_digits (acc * 10 + d) True cs)"

definition int_literal :: "string \<Rightarrow> int option" where
  "int_literal s =
     (case strip s of
        [] \<Rightarrow> None
      | c # cs \<Rightarrow>
          if c = CHR ''-'' then map_option (\<lambda>n. - int n) (int_digits 0 False cs)
          else if c = CHR ''+'' then map_option int (int_digits 0 False cs)
          else map_option int (int_digits 0 False (c # cs)))"

declare string_of_nat.simps [simp del]

section \<open>The world outside the handlers\<close>

text \<open>
  The state a request can change: the directories that exist (by path), the JSON documents
  stored on disk (by path), and the paths that cannot be written.
\<close>

record world =
  dirs :: "string set"
  documents :: "string \<rightharpoonup> json"
  read_only :: "string set"

type_synonym kwargs = "(string \<times> json) list"

text \<open>
  Everything \<^verbatim>\<open>app.py\<close> imports or reads from its surroundings is a parameter:
  \<^item> \<open>CONFIG_FILE_OVERRIDE\<close> and \<open>PROJECTS_BASE_PATH_OVERRIDE\<close>: the two entries of
    \<^verbatim>\<open>app.config\<close>;
  \<^item> \<open>interp_text\<close>: the message the interpreter gives an exception it raises itself
    (operation, operands); \<open>py_repr\<close>: \<^verbatim>\<open>repr\<close> of a float, a list or a dictionary;
    \<open>py_float\<close>: the builtin \<^verbatim>\<open>float\<close> (literal grammar and rounding);
    \<open>int_max_str_digits\<close>: the interpreter's limit on the digits of an integer literal
    (\<^verbatim>\<open>sys.get_int_max_str_digits()\<close>, 0 for none);
  \<^item> \<open>mkdir_error\<close>: the exception with which the operating system refuses to create a
    directory, if it does;
  \<^item> \<open>load_config\<close>, \<open>save_config\<close> (\<^verbatim>\<open>config_manager\<close>), \<open>read_file\<close> (\<^verbatim>\<open>utils\<close>) and the
    six library functions the routes delegate to: each raises or returns, and those that
    write return the world they leave.
\<close>

record env =
  CONFIG_FILE_OVERRIDE :: "string option"
  PROJECTS_BASE_PATH_OVERRIDE :: "string option"
  interp_text :: "string \<Rightarrow> json list \<Rightarrow> string"
  py_repr :: "json \<Rightarrow> string"
  py_float :: "json \<Rightarrow> py_exn + json"
  int_max_str_digits :: nat
  mkdir_error :: "string \<Rightarrow> world \<Rightarrow> py_exn option"
  load_config :: "string \<Rightarrow> world \<Rightarrow> py_exn + json"
  save_config :: "json \<Rightarrow> string \<Rightarrow> world \<Rightarrow> (py_exn + json) \<times> world"
  read_file :: "string \<Rightarrow> world \<Rightarrow> py_exn + string"
  Novel_architecture_generate :: "kwargs \<Rightarrow> world \<Rightarrow> (py_exn + json) \<times> world"
  Chapter_blueprint_generate :: "kwargs \<Rightarrow> world \<Rightarrow> (py_exn + json) \<times> world"
  generate_chapter_draft :: "kwargs \<Rightarrow> world \<Rightarrow> (py_exn + json) \<times> world"
  finalize_chapter :: "kwargs \<Rightarrow> world \<Rightarrow> (py_exn + json) \<times> world"
  clear_vector_store :: "string \<Rightarrow> world \<Rightarrow> (py_exn + json) \<times> world"
  check_consistency :: "kwargs \<Rightarrow> world \<Rightarrow> (py_exn + json) \<times> world"

subsection \<open>Builtins\<close>

definition raise :: "env \<Rightarrow> exn_class \<Rightarrow> string \<Rightarrow> json list \<Rightarrow> py_exn + 'a" where
  "raise env c op args = Inl (Exn c (interp_text env op args))"

text \<open>\<^verbatim>\<open>str(x)\<close>, as an f-string formats \<^verbatim>\<open>{x}\<close>.\<close>

definition py_str :: "env \<Rightarrow> json \<Rightarrow> string" where
  "py_str env v =
     (case v of
        JStr s \<Rightarrow> s
      | JNull \<Rightarrow> ''None''
      | JBool b \<Rightarrow> (if b then ''True'' else ''False'')
      | JInt n \<Rightarrow> string_of_int n
      | _ \<Rightarrow> py_repr env v)"

text \<open>
  \<^verbatim>\<open>int(x)\<close>: a float is truncated towards zero, a string is read as a decimal literal
  (\<open>ValueError\<close> when it is none, or has more digits than the interpreter allows),
  \<^verbatim>\<open>None\<close>, a list and a dictionary give \<open>TypeError\<close>.
\<close>

definition too_many_digits :: "env \<Rightarrow> string \<Rightarrow> bool" where
  "too_many_digits env s =
     (int_max_str_digits env \<noteq> 0 \<and>
      int_max_str_digits env < length (filter (\<lambda>c. digit_val c \<noteq> None) s))"

definition py_int :: "env \<Rightarrow> json \<Rightarrow> py_exn + int" where
  "py_int env v =
     (case v of
        JInt n \<Rightarrow> Inr n
      | JBool b \<Rightarrow> Inr (if b then 1 else 0)
      | JFloat r \<Rightarrow> Inr (if 0 \<le> r then \<lfloor>r\<rfloor> else \<lceil>r\<rceil>)
      | JStr s \<Rightarrow> (case int_literal s of
                    Some n \<Rightarrow>
                      if too_many_digits env s then raise env ValueError ''int'' [v] else Inr n
                  | None \<Rightarrow> raise env ValueError ''int'' [v])
      | _ \<Rightarrow> raise env TypeError ''int'' [v])"

text \<open>\<^verbatim>\<open>x.get(key, default)\<close>: only a dictionary has the method.\<close>

definition py_get :: "env \<Rightarrow> json \<Rightarrow> string \<Rightarrow> json \<Rightarrow> py_exn + json" where
  "py_get env x k dflt =
     (case x of
        JObj kvs \<Rightarrow> Inr (dict_get kvs k dflt)
      | _ \<Rightarrow> raise env AttributeError ''get'' [x])"

text \<open>\<^verbatim>\<open>x in c\<close>.\<close>

definition py_in :: "env \<Rightarrow> json \<Rightarrow> json \<Rightarrow> py_exn + bool" where
  "py_in env x c =
     (case c of
        JObj kvs \<Rightarrow>
          if hashable x
          then Inr (case x of JStr s \<Rightarrow> s \<in> set (map fst kvs) | _ \<Rightarrow> False)
          else raise env TypeError ''hash'' [x]
      | JArr xs \<Rightarrow> Inr (list_ex (py_eq x) xs)
      | JStr s \<Rightarrow> (case x of
                    JStr t \<Rightarrow> Inr (sublist t s)
                  | _ \<Rightarrow> raise env TypeError ''in'' [x, c])
      | _ \<Rightarrow> raise env TypeError ''in'' [x, c])"

text \<open>
  \<^verbatim>\<open>c[x]\<close>: a dictionary is read by key, a list and a string by an integer index, counted
  from the end when negative.
\<close>

fun index_of :: "json \<Rightarrow> int option" where
  "index_of (JInt i) = Some i"
| "index_of (JBool b) = Some (if b then 1 else 0)"
| "index_of v = None"

definition py_index :: "int \<Rightarrow> nat \<Rightarrow> nat option" where
  "py_index i n =
     (if 0 \<le> i \<and> i < int n then Some (nat i)
      else if i < 0 \<and> - int n \<le> i then Some (nat (int n + i))
      else None)"

definition py_getitem :: "env \<Rightarrow> json \<Rightarrow> json \<Rightarrow> py_exn + json" where
  "py_getitem env c x =
     (case c of
        JObj kvs \<Rightarrow>
          if \<not> hashable x then raise env TypeError ''hash'' [x]
          else (case x of
                  JStr s \<Rightarrow> (case map_of kvs s of
                                Some v \<Rightarrow> Inr v
                              | None \<Rightarrow> raise env KeyError ''getitem'' [c, x])
                | _ \<Rightarrow> raise env KeyError ''getitem'' [c, x])
      | JArr xs \<Rightarrow>
          (case index_of x of
             None \<Rightarrow> raise env TypeError ''getitem'' [c, x]
           | Some i \<Rightarrow> (case py_index i (length xs) of
                          None \<Rightarrow> raise env IndexError ''getitem'' [c, x]
                        | Some j \<Rightarrow> Inr (xs ! j)))
      | JStr s \<Rightarrow>
          (case index_of x of
             None \<Rightarrow> raise env TypeError ''getitem'' [c, x]
           | Some i \<Rightarrow> (case py_index i (length s) of
                          None \<Rightarrow> raise env IndexError ''getitem'' [c, x]
                        | Some j \<Rightarrow> Inr (JStr [s ! j])))
      | _ \<Rightarrow> raise env TypeError ''getitem'' [c, x])"

text \<open>\<^verbatim>\<open>', '.join(keys)\<close>.\<close>

fun join_comma :: "string list \<Rightarrow> string" where
  "join_comma [] = []"
| "join_comma [k] = k"
| "join_comma (k # ks) = k @ '', '' @ join_comma ks"

text \<open>
  \<^verbatim>\<open>os.path.join(a, b)\<close> on POSIX, where \<^verbatim>\<open>a\<close> is a string: \<^verbatim>\<open>b\<close> that is no string gives
  \<open>TypeError\<close>, an absolute \<^verbatim>\<open>b\<close> replaces \<^verbatim>\<open>a\<close>.
\<close>

definition posix_join :: "string \<Rightarrow> string \<Rightarrow> string" where
  "posix_join a b =
     (if b \<noteq> [] \<and> hd b = CHR ''/'' then b
      else if a = [] \<or> last a = CHR ''/'' then a @ b
      else a @ ''/'' @ b)"

definition os_path_join :: "env \<Rightarrow> string \<Rightarrow> json \<Rightarrow> py_exn + string" where
  "os_path_join env a b =
     (case b of
        JStr s \<Rightarrow> Inr (posix_join a s)
      | _ \<Rightarrow> raise env TypeError ''os.path.join'' [JStr a, b])"

text \<open>
  \<^verbatim>\<open>os.makedirs(p, exist_ok=True)\<close>: nothing happens when \<^verbatim>\<open>p\<close> is a directory already;
  otherwise the directory and the missing ones above it are created, unless the operating
  system refuses. What a refused call created on its way is not recorded.
\<close>

definition path_parents :: "string \<Rightarrow> string list" where
  "path_parents p = map (\<lambda>i. take i p) (filter (\<lambda>i. p ! i = CHR ''/'') [1..<length p])"

definition os_makedirs :: "env \<Rightarrow> string \<Rightarrow> world \<Rightarrow> py_exn option \<times> world" where
  "os_makedirs env p w =
     (if p \<in> dirs w then (None, w)
      else case mkdir_error env p w of
             Some e \<Rightarrow> (Some e, w)
           | None \<Rightarrow> (None, w\<lparr>dirs := insert p (set (path_parents p) \<union> dirs w)\<rparr>))"

definition os_path_isdir :: "string \<Rightarrow> world \<Rightarrow> bool" where
  "os_path_isdir p w = (p \<in> dirs w)"

section \<open>Configuration helpers of \<^verbatim>\<open>app.py\<close>\<close>

definition get_config_file_path :: "env \<Rightarrow> string" where
  "get_config_file_path env = (case CONFIG_FILE_OVERRIDE env of None \<Rightarrow> ''config.json'' | Some p \<Rightarrow> p)"

definition get_projects_base_path :: "env \<Rightarrow> string" where
  "get_projects_base_path env =
     (case PROJECTS_BASE_PATH_OVERRIDE env of None \<Rightarrow> ''novel_projects'' | Some p \<Rightarrow> p)"

definition quoted :: "string \<Rightarrow> string" where
  "quoted s = [CHR 0x27] @ s @ [CHR 0x27]"

text \<open>
  The list comprehension
  \<^verbatim>\<open>[key for key in required_keys if key not in cfg or not cfg[key]]\<close>,
  key by key; the first exception ends it.
\<close>

fun missing_keys :: "env \<Rightarrow> json \<Rightarrow> string list \<Rightarrow> py_exn + string list" where
  "missing_keys env cfg [] = Inr []"
| "missing_keys env cfg (k # ks) =
     (case py_in env (JStr k) cfg of
        Inl e \<Rightarrow> Inl e
      | Inr present \<Rightarrow>
          if \<not> present
          then (case missing_keys env cfg ks of Inl e \<Rightarrow> Inl e | Inr m \<Rightarrow> Inr (k # m))
          else (case py_getitem env cfg (JStr k) of
                  Inl e \<Rightarrow> Inl e
                | Inr v \<Rightarrow>
                    if \<not> truthy v
                    then (case missing_keys env cfg ks of Inl e \<Rightarrow> Inl e | Inr m \<Rightarrow> Inr (k # m))
                    else missing_keys env cfg ks))"

definition llm_required_keys :: "json \<Rightarrow> string list" where
  "llm_required_keys last_llm_interface =
     [''api_key'', ''model_name'', ''temperature'', ''max_tokens'', ''timeout'']
     @ (if py_eq last_llm_interface (JStr ''OpenAI'') then [''base_url''] else [])"

text \<open>
  \<open>get_llm_config\<close> returns the triple \<^verbatim>\<open>(config, interface, error_msg)\<close>, or raises what
  \<^verbatim>\<open>load_config\<close> or an ill-typed document makes it raise.
\<close>

definition get_llm_config :: "env \<Rightarrow> world \<Rightarrow> py_exn + (json \<times> json \<times> json)" where
  "get_llm_config env w =
     (case load_config env (get_config_file_path env) w of
        Inl e \<Rightarrow> Inl e
      | Inr config \<Rightarrow>
          if \<not> truthy config then Inr (JNull, JNull, JStr ''Config file not found or empty.'')
          else
     (case py_get env config ''last_interface_format'' (JStr ''OpenAI'') of
        Inl e \<Rightarrow> Inl e
      | Inr last_llm_interface \<Rightarrow>
     (case py_get env config ''llm_configs'' (JObj []) of
        Inl e \<Rightarrow> Inl e
      | Inr llm_configs \<Rightarrow>
     (case py_in env last_llm_interface llm_configs of
        Inl e \<Rightarrow> Inl e
      | Inr found \<Rightarrow>
          if \<not> found
          then Inr (JNull, JNull,
                 JStr (''Configuration for '' @ quoted (py_str env last_llm_interface)
                       @ '' not found in llm_configs.''))
          else
     (case py_getitem env llm_configs last_llm_interface of
        Inl e \<Rightarrow> Inl e
      | Inr current_llm_config \<Rightarrow>
     (case missing_keys env current_llm_config (llm_required_keys last_llm_interface) of
        Inl e \<Rightarrow> Inl e
      | Inr missing \<Rightarrow>
          if missing \<noteq> []
          then Inr (JNull, JNull,
                 JStr (''LLM configuration for '' @ quoted (py_str env last_llm_interface)
                       @ '' is missing or has empty values for required keys: ''
                       @ join_comma missing @ ''.''))
          else Inr (current_llm_config, last_llm_interface, JNull)))))))"

definition get_embedding_config :: "env \<Rightarrow> world \<Rightarrow> py_exn + (json \<times> json \<times> json)" where
  "get_embedding_config env w =
     (case load_config env (get_config_file_path env) w of
        Inl e \<Rightarrow> Inl e
      | Inr config \<Rightarrow>
          if \<not> truthy config then Inr (JNull, JNull, JStr ''Config file not found or empty.'')
          else
     (case py_get env config ''last_embedding_interface_format'' (JStr ''OpenAI'') of
        Inl e \<Rightarrow> Inl e
      | Inr last_embedding_interface \<Rightarrow>
     (case py_get env config ''embedding_configs'' (JObj []) of
        Inl e \<Rightarrow> Inl e
      | Inr embedding_configs \<Rightarrow>
     (case py_in env last_embedding_interface embedding_configs of
        Inl e \<Rightarrow> Inl e
      | Inr found \<Rightarrow>
          if \<not> found
          then Inr (JNull, JNull,
                 JStr (''Configuration for '' @ quoted (py_str env last_embedding_interface)
                       @ '' not found in embedding_configs.''))
          else
     (case py_getitem env embedding_configs last_embedding_interface of
        Inl e \<Rightarrow> Inl e
      | Inr current_embedding_config \<Rightarrow>
     (case missing_keys env current_embedding_config [''api_key'', ''model_name''] of
        Inl e \<Rightarrow> Inl e
      | Inr missing \<Rightarrow>
          if missing \<noteq> []
          then Inr (JNull, JNull,
                 JStr (''Embedding configuration for '' @ quoted (py_str env last_embedding_interface)
                       @ '' is missing or has empty values for required keys: ''
                       @ join_comma missing @ ''.''))
          else Inr (current_embedding_config, last_embedding_interface, JNull)))))))"

section \<open>Responses\<close>

text \<open>
  A handler returns a response (\<^verbatim>\<open>jsonify(...), status\<close>) or lets an exception escape. Its
  outcome also holds the world it leaves and the calls it made to the library functions,
  each with its keyword arguments and with what the call raised or returned.
\<close>

record response =
  status_code :: nat
  json_body :: json

datatype call = Call string kwargs "py_exn + json"

record outcome =
  reply :: "py_exn + response"
  after :: world
  calls :: "call list"

definition error_body :: "string \<Rightarrow> json" where
  "error_body msg = JObj [(''status'', JStr ''error''), (''message'', JStr msg)]"

definition error_response :: "nat \<Rightarrow> string \<Rightarrow> response" where
  "error_response code msg = \<lparr>status_code = code, json_body = error_body msg\<rparr>"

definition responded :: "response \<Rightarrow> world \<Rightarrow> outcome" where
  "responded r w = \<lparr>reply = Inr r, after = w, calls = []\<rparr>"

definition unhandled :: "py_exn \<Rightarrow> world \<Rightarrow> outcome" where
  "unhandled e w = \<lparr>reply = Inl e, after = w, calls = []\<rparr>"

text \<open>
  A call to a library function inside \<^verbatim>\<open>try\<close>: \<open>k\<close> turns what the call raised or returned
  into the response.
\<close>

definition delegated ::
  "string \<Rightarrow> kwargs \<Rightarrow> (py_exn + json) \<times> world \<Rightarrow> (py_exn + json \<Rightarrow> response) \<Rightarrow> outcome" where
  "delegated name kw res k = \<lparr>reply = Inr (k (fst res)), after = snd res, calls = [Call name kw (fst res)]\<rparr>"

text \<open>
  The arguments of a call are evaluated from left to right; the first exception ends the
  evaluation.
\<close>

fun eval_kwargs :: "(string \<times> (py_exn + json)) list \<Rightarrow> py_exn + kwargs" where
  "eval_kwargs [] = Inr []"
| "eval_kwargs ((k, r) # rest) =
     (case r of
        Inl e \<Rightarrow> Inl e
      | Inr v \<Rightarrow> (case eval_kwargs rest of Inl e \<Rightarrow> Inl e | Inr kw \<Rightarrow> Inr ((k, v) # kw)))"

definition then_float :: "env \<Rightarrow> py_exn + json \<Rightarrow> py_exn + json" where
  "then_float env r = (case r of Inl e \<Rightarrow> Inl e | Inr v \<Rightarrow> py_float env v)"

definition then_int :: "env \<Rightarrow> py_exn + json \<Rightarrow> py_exn + json" where
  "then_int env r =
     (case r of
        Inl e \<Rightarrow> Inl e
      | Inr v \<Rightarrow> (case py_int env v of Inl e \<Rightarrow> Inl e | Inr n \<Rightarrow> Inr (JInt n)))"

text \<open>
  The arguments every generator gets from the LLM configuration, in the two orders in
  which the handlers write them.
\<close>

definition llm_args_generate :: "env \<Rightarrow> json \<Rightarrow> json \<Rightarrow> (string \<times> (py_exn + json)) list" where
  "llm_args_generate env llm_config interface_format =
     [(''interface_format'', Inr interface_format),
      (''api_key'', py_getitem env llm_config (JStr ''api_key'')),
      (''base_url'', py_get env llm_config ''base_url'' JNull),
      (''llm_model'', py_getitem env llm_config (JStr ''model_name'')),
      (''temperature'', then_float env (py_getitem env llm_config (JStr ''temperature''))),
      (''max_tokens'', then_int env (py_getitem env llm_config (JStr ''max_tokens''))),
      (''timeout'', then_int env (py_getitem env llm_config (JStr ''timeout'')))]"

definition llm_args_chapter :: "env \<Rightarrow> json \<Rightarrow> json \<Rightarrow> (string \<times> (py_exn + json)) list" where
  "llm_args_chapter env llm_config llm_interface_format =
     [(''api_key'', py_getitem env llm_config (JStr ''api_key'')),
      (''base_url'', py_get env llm_config ''base_url'' JNull),
      (''model_name'', py_getitem env llm_config (JStr ''model_name'')),
      (''temperature'', then_float env (py_getitem env llm_config (JStr ''temperature''))),
      (''interface_format'', Inr llm_interface_format),
      (''max_tokens'', then_int env (py_getitem env llm_config (JStr ''max_tokens''))),
      (''timeout'', then_int env (py_getitem env llm_config (JStr ''timeout'')))]"

definition embedding_args :: "env \<Rightarrow> json \<Rightarrow> json \<Rightarrow> (string \<times> (py_exn + json)) list" where
  "embedding_args env embedding_config embedding_interface_format =
     [(''embedding_api_key'', py_getitem env embedding_config (JStr ''api_key'')),
      (''embedding_url'', py_get env embedding_config ''base_url'' JNull),
      (''embedding_interface_format'', Inr embedding_interface_format),
      (''embedding_model_name'', py_getitem env embedding_config (JStr ''model_name''))]"

section \<open>The routes\<close>

text \<open>
  A request is its parsed JSON body. \<^verbatim>\<open>request.json.get(...)\<close> raises \<open>AttributeError\<close>
  when the body is not an object.
\<close>

subsection \<open>\<^verbatim>\<open>POST /api/novel/architecture\<close>\<close>

definition architecture_except :: "py_exn \<Rightarrow> response" where
  "architecture_except e =
     (if exn_class_of e = KeyError
      then error_response 500 (''Missing key in LLM configuration: '' @ exn_str e)
      else if exn_class_of e = ValueError
      then error_response 500 (''Invalid value in LLM configuration: '' @ exn_str e)
      else error_response 500 (''Error generating novel architecture: '' @ exn_str e))"

definition architecture_result :: "string \<Rightarrow> py_exn + json \<Rightarrow> response" where
  "architecture_result filepath r =
     (case r of
        Inl e \<Rightarrow> architecture_except e
      | Inr v \<Rightarrow>
          \<lparr>status_code = 200,
           json_body = JObj [(''status'', JStr ''success''),
                             (''message'', JStr ''Novel architecture generated.''),
                             (''filepath'', JStr filepath)]\<rparr>)"

definition generate_architecture_api :: "env \<Rightarrow> json \<Rightarrow> world \<Rightarrow> outcome" where
  "generate_architecture_api env request_json w =
     (case request_json of
        JObj data \<Rightarrow>
     (case os_path_join env (get_projects_base_path env)
             (dict_get data ''project_name'' (JStr ''default_project'')) of
        Inl e \<Rightarrow> unhandled e w
      | Inr filepath \<Rightarrow>
     (case os_makedirs env filepath w of
        (Some e, w1) \<Rightarrow>
          if is_OSError e
          then responded (error_response 500 (''Could not create project directory: '' @ exn_str e)) w1
          else unhandled e w1
      | (None, w1) \<Rightarrow>
     (case get_llm_config env w1 of
        Inl e \<Rightarrow> unhandled e w1
      | Inr (llm_config, interface_format, error_msg) \<Rightarrow>
          if truthy error_msg
          then responded (error_response 500 (''LLM Config Error: '' @ py_str env error_msg)) w1
          else if \<not> truthy request_json
          then responded (error_response 400 ''Request body must be JSON.'') w1
          else
     (case py_int env (dict_get data ''num_chapters'' (JInt 10)) of
        Inl e \<Rightarrow> unhandled e w1
      | Inr num_chapters \<Rightarrow>
     (case py_int env (dict_get data ''word_number'' (JInt 3000)) of
        Inl e \<Rightarrow> unhandled e w1
      | Inr word_number \<Rightarrow>
     (case eval_kwargs
             (llm_args_generate env llm_config interface_format @
              [(''topic'', Inr (dict_get data ''topic'' (JStr ''A grand adventure''))),
               (''genre'', Inr (dict_get data ''genre'' (JStr ''Fantasy''))),
               (''number_of_chapters'', Inr (JInt num_chapters)),
               (''word_number'', Inr (JInt word_number)),
               (''filepath'', Inr (JStr filepath)),
               (''user_guidance'', Inr (dict_get data ''user_guidance'' (JStr [])))]) of
        Inl e \<Rightarrow> responded (architecture_except e) w1
      | Inr kw \<Rightarrow>
          delegated ''Novel_architecture_generate'' kw (Novel_architecture_generate env kw w1)
            (architecture_result filepath)))))))
      | _ \<Rightarrow> unhandled (Exn AttributeError (interp_text env ''get'' [request_json])) w)"

subsection \<open>\<^verbatim>\<open>GET\<close> and \<^verbatim>\<open>POST /api/config\<close>\<close>

definition get_config_api :: "env \<Rightarrow> world \<Rightarrow> outcome" where
  "get_config_api env w =
     (case load_config env (get_config_file_path env) w of
        Inl e \<Rightarrow> responded (error_response 500 (''Error loading configuration: '' @ exn_str e)) w
      | Inr config_data \<Rightarrow> responded \<lparr>status_code = 200, json_body = config_data\<rparr> w)"

definition save_config_api :: "env \<Rightarrow> json \<Rightarrow> world \<Rightarrow> outcome" where
  "save_config_api env new_config_data w =
     (case new_config_data of
        JObj kvs \<Rightarrow>
          (case save_config env new_config_data (get_config_file_path env) w of
             (Inl e, w1) \<Rightarrow>
               responded (error_response 500 (''Error saving configuration: '' @ exn_str e)) w1
           | (Inr saved, w1) \<Rightarrow>
               if truthy saved
               then responded
                      \<lparr>status_code = 200,
                       json_body = JObj [(''status'', JStr ''success''),
                                         (''message'', JStr ''Configuration saved.'')]\<rparr> w1
               else responded (error_response 500 ''Failed to save configuration.'') w1)
      | _ \<Rightarrow>
          responded
            (error_response 400 ''Invalid configuration format. Must be a JSON object.'') w)"

subsection \<open>\<^verbatim>\<open>POST /api/novel/blueprint\<close>\<close>

definition blueprint_except :: "py_exn \<Rightarrow> response" where
  "blueprint_except e =
     (if exn_class_of e = FileNotFoundError
      then error_response 400 (''Prerequisite file not found: '' @ exn_str e @ ''.'')
      else if exn_class_of e = KeyError
      then error_response 500 (''Missing key in LLM configuration: '' @ exn_str e)
      else if exn_class_of e = ValueError
      then error_response 500 (''Invalid value in LLM configuration or request: '' @ exn_str e)
      else error_response 500 (''Error generating novel blueprint: '' @ exn_str e))"

definition blueprint_result :: "string \<Rightarrow> py_exn + json \<Rightarrow> response" where
  "blueprint_result filepath r =
     (case r of
        Inl e \<Rightarrow> blueprint_except e
      | Inr v \<Rightarrow>
          \<lparr>status_code = 200,
           json_body = JObj [(''status'', JStr ''success''),
                             (''message'', JStr ''Novel blueprint generated.''),
                             (''filepath'', JStr filepath)]\<rparr>)"

definition generate_blueprint_api :: "env \<Rightarrow> json \<Rightarrow> world \<Rightarrow> outcome" where
  "generate_blueprint_api env request_json w =
     (case request_json of
        JObj data \<Rightarrow>
     (case os_path_join env (get_projects_base_path env)
             (dict_get data ''project_name'' (JStr ''default_project'')) of
        Inl e \<Rightarrow> unhandled e w
      | Inr filepath \<Rightarrow>
     (case os_makedirs env filepath w of
        (Some e, w1) \<Rightarrow>
          if is_OSError e
          then responded (error_response 500 (''Could not create project directory: '' @ exn_str e)) w1
          else unhandled e w1
      | (None, w1) \<Rightarrow>
     (case get_llm_config env w1 of
        Inl e \<Rightarrow> unhandled e w1
      | Inr (llm_config, interface_format, error_msg) \<Rightarrow>
          if truthy error_msg
          then responded (error_response 500 (''LLM Config Error: '' @ py_str env error_msg)) w1
          else if \<not> truthy request_json
          then responded (error_response 400 ''Request body must be JSON.'') w1
          else if dict_get data ''num_chapters'' JNull = JNull
          then responded (error_response 400 ''Missing 'num_chapters' in request.'') w1
          else
     (case py_int env (dict_get data ''num_chapters'' JNull) of
        Inl e \<Rightarrow>
          if exn_class_of e = ValueError
          then responded (error_response 400 '''num_chapters' must be an integer.'') w1
          else unhandled e w1
      | Inr num_chapters \<Rightarrow>
     (case eval_kwargs
             (llm_args_generate env llm_config interface_format @
              [(''filepath'', Inr (JStr filepath)),
               (''number_of_chapters'', Inr (JInt num_chapters)),
               (''user_guidance'', Inr (dict_get data ''user_guidance'' (JStr [])))]) of
        Inl e \<Rightarrow> responded (blueprint_except e) w1
      | Inr kw \<Rightarrow>
          delegated ''Chapter_blueprint_generate'' kw (Chapter_blueprint_generate env kw w1)
            (blueprint_result filepath))))))
      | _ \<Rightarrow> unhandled (Exn AttributeError (interp_text env ''get'' [request_json])) w)"

subsection \<open>\<^verbatim>\<open>POST /api/novel/chapter_draft\<close>\<close>

definition chapter_draft_except :: "py_exn \<Rightarrow> response" where
  "chapter_draft_except e =
     (if exn_class_of e = FileNotFoundError
      then error_response 400 (''Prerequisite file not found: '' @ exn_str e @ ''.'')
      else if exn_class_of e = KeyError
      then error_response 500 (''Missing key in LLM or Embedding configuration: '' @ exn_str e)
      else if exn_class_of e = ValueError
      then error_response 500
             (''Invalid value in configuration or request parameters: '' @ exn_str e)
      else error_response 500 (''Error generating chapter draft: '' @ exn_str e))"

definition chapter_draft_result :: "string \<Rightarrow> int \<Rightarrow> py_exn + json \<Rightarrow> response" where
  "chapter_draft_result filepath novel_number r =
     (case r of
        Inl e \<Rightarrow> chapter_draft_except e
      | Inr draft_text \<Rightarrow>
          if truthy draft_text
          then \<lparr>status_code = 200,
                json_body = JObj [(''status'', JStr ''success''),
                                  (''message'', JStr (''Chapter '' @ string_of_int novel_number
                                                      @ '' draft generated.'')),
                                  (''filepath'', JStr filepath),
                                  (''draft_text'', draft_text)]\<rparr>
          else error_response 500 ''Chapter draft generation resulted in empty content.'')"

definition generate_chapter_draft_api :: "env \<Rightarrow> json \<Rightarrow> world \<Rightarrow> outcome" where
  "generate_chapter_draft_api env request_json w =
     (case request_json of
        JObj data \<Rightarrow>
     (case os_path_join env (get_projects_base_path env)
             (dict_get data ''project_name'' (JStr ''default_project'')) of
        Inl e \<Rightarrow> unhandled e w
      | Inr filepath \<Rightarrow>
     (case os_makedirs env filepath w of
        (Some e, w1) \<Rightarrow>
          if is_OSError e
          then responded (error_response 500 (''Could not create project directory: '' @ exn_str e)) w1
          else unhandled e w1
      | (None, w1) \<Rightarrow>
     (case get_llm_config env w1 of
        Inl e \<Rightarrow> unhandled e w1
      | Inr (llm_config, llm_interface_format, llm_error_msg) \<Rightarrow>
          if truthy llm_error_msg
          then responded (error_response 500 (''LLM Config Error: '' @ py_str env llm_error_msg)) w1
          else
     (case get_embedding_config env w1 of
        Inl e \<Rightarrow> unhandled e w1
      | Inr (embedding_config, embedding_interface_format, embedding_error_msg) \<Rightarrow>
          if truthy embedding_error_msg
          then responded
                 (error_response 500 (''Embedding Config Error: '' @ py_str env embedding_error_msg)) w1
          else if \<not> truthy request_json
          then responded (error_response 400 ''Request body must be JSON.'') w1
          else if dict_get data ''novel_number'' JNull = JNull \<or> dict_get data ''word_number'' JNull = JNull
          then responded (error_response 400 ''Missing 'novel_number' or 'word_number'.'') w1
          else
     (case py_int env (dict_get data ''novel_number'' JNull) of
        Inl e \<Rightarrow>
          if exn_class_of e = ValueError
          then responded
                 (error_response 400 '''novel_number' and 'word_number' must be integers.'') w1
          else unhandled e w1
      | Inr novel_number \<Rightarrow>
     (case py_int env (dict_get data ''word_number'' JNull) of
        Inl e \<Rightarrow>
          if exn_class_of e = ValueError
          then responded
                 (error_response 400 '''novel_number' and 'word_number' must be integers.'') w1
          else unhandled e w1
      | Inr word_number \<Rightarrow>
     (case py_int env (dict_get data ''embedding_retrieval_k'' (JStr ''4'')) of
        Inl e \<Rightarrow>
          if exn_class_of e = ValueError
          then responded
                 (error_response 400 '''embedding_retrieval_k' must be an integer.'') w1
          else unhandled e w1
      | Inr embedding_retrieval_k \<Rightarrow>
     (case eval_kwargs
             (llm_args_chapter env llm_config llm_interface_format @
              embedding_args env embedding_config embedding_interface_format @
              [(''embedding_retrieval_k'', Inr (JInt embedding_retrieval_k)),
               (''filepath'', Inr (JStr filepath)),
               (''novel_number'', Inr (JInt novel_number)),
               (''word_number'', Inr (JInt word_number)),
               (''user_guidance'', Inr (dict_get data ''user_guidance'' (JStr []))),
               (''characters_involved'', Inr (dict_get data ''characters_involved'' (JStr []))),
               (''key_items'', Inr (dict_get data ''key_items'' (JStr []))),
               (''scene_location'', Inr (dict_get data ''scene_location'' (JStr []))),
               (''time_constraint'', Inr (dict_get data ''time_constraint'' (JStr []))),
               (''custom_prompt_text'', Inr (dict_get data ''custom_prompt_text'' JNull))]) of
        Inl e \<Rightarrow> responded (chapter_draft_except e) w1
      | Inr kw \<Rightarrow>
          delegated ''generate_chapter_draft'' kw (generate_chapter_draft env kw w1)
            (chapter_draft_result filepath novel_number)))))))))
      | _ \<Rightarrow> unhandled (Exn AttributeError (interp_text env ''get'' [request_json])) w)"

subsection \<open>\<^verbatim>\<open>POST /api/novel/finalize_chapter\<close>\<close>

definition finalize_except :: "py_exn \<Rightarrow> response" where
  "finalize_except e =
     (if exn_class_of e = FileNotFoundError
      then error_response 400 (''Required file not found: '' @ exn_str e @ ''.'')
      else if exn_class_of e = KeyError
      then error_response 500 (''Missing key in LLM or Embedding configuration: '' @ exn_str e)
      else if exn_class_of e = ValueError
      then error_response 500
             (''Invalid value in configuration or request parameters: '' @ exn_str e)
      else error_response 500 (''Error finalizing chapter: '' @ exn_str e))"

definition finalize_result :: "string \<Rightarrow> int \<Rightarrow> py_exn + json \<Rightarrow> response" where
  "finalize_result filepath novel_number r =
     (case r of
        Inl e \<Rightarrow> finalize_except e
      | Inr v \<Rightarrow>
          \<lparr>status_code = 200,
           json_body =
             JObj [(''status'', JStr ''success''),
                   (''message'',
                    JStr (''Chapter '' @ string_of_int novel_number
                          @ '' finalized. Summaries, character states, and vector store updated.'')),
                   (''filepath'', JStr filepath)]\<rparr>)"

definition finalize_chapter_api :: "env \<Rightarrow> json \<Rightarrow> world \<Rightarrow> outcome" where
  "finalize_chapter_api env request_json w =
     (case request_json of
        JObj data \<Rightarrow>
     (case os_path_join env (get_projects_base_path env)
             (dict_get data ''project_name'' (JStr ''default_project'')) of
        Inl e \<Rightarrow> unhandled e w
      | Inr filepath \<Rightarrow>
     (case get_llm_config env w of
        Inl e \<Rightarrow> unhandled e w
      | Inr (llm_config, llm_interface_format, llm_error_msg) \<Rightarrow>
          if truthy llm_error_msg
          then responded (error_response 500 (''LLM Config Error: '' @ py_str env llm_error_msg)) w
          else
     (case get_embedding_config env w of
        Inl e \<Rightarrow> unhandled e w
      | Inr (embedding_config, embedding_interface_format, embedding_error_msg) \<Rightarrow>
          if truthy embedding_error_msg
          then responded
                 (error_response 500 (''Embedding Config Error: '' @ py_str env embedding_error_msg)) w
          else if \<not> truthy request_json
          then responded (error_response 400 ''Request body must be JSON.'') w
          else if dict_get data ''novel_number'' JNull = JNull \<or> dict_get data ''word_number'' JNull = JNull
          then responded (error_response 400 ''Missing 'novel_number' or 'word_number'.'') w
          else
     (case py_int env (dict_get data ''novel_number'' JNull) of
        Inl e \<Rightarrow>
          if exn_class_of e = ValueError
          then responded
                 (error_response 400 ''Invalid 'novel_number' or 'word_number', must be integers.'') w
          else unhandled e w
      | Inr novel_number \<Rightarrow>
     (case py_int env (dict_get data ''word_number'' JNull) of
        Inl e \<Rightarrow>
          if exn_class_of e = ValueError
          then responded
                 (error_response 400 ''Invalid 'novel_number' or 'word_number', must be integers.'') w
          else unhandled e w
      | Inr word_number \<Rightarrow>
     (case eval_kwargs
             (llm_args_chapter env llm_config llm_interface_format @
              embedding_args env embedding_config embedding_interface_format @
              [(''filepath'', Inr (JStr filepath)),
               (''novel_number'', Inr (JInt novel_number)),
               (''word_number'', Inr (JInt word_number))]) of
        Inl e \<Rightarrow> responded (finalize_except e) w
      | Inr kw \<Rightarrow>
          delegated ''finalize_chapter'' kw (finalize_chapter env kw w)
            (finalize_result filepath novel_number)))))))
      | _ \<Rightarrow> unhandled (Exn AttributeError (interp_text env ''get'' [request_json])) w)"

subsection \<open>\<^verbatim>\<open>POST /api/vectorstore/clear\<close>\<close>

definition clear_result :: "string \<Rightarrow> py_exn + json \<Rightarrow> response" where
  "clear_result project_name r =
     (case r of
        Inl e \<Rightarrow> error_response 500 (''Error clearing vector store: '' @ exn_str e)
      | Inr cleared \<Rightarrow>
          if truthy cleared
          then \<lparr>status_code = 200,
                json_body = JObj [(''status'', JStr ''success''),
                                  (''message'', JStr (''Vector store for project ''
                                                      @ quoted project_name @ '' cleared.''))]\<rparr>
          else error_response 500
                 (''Failed to clear vector store for project '' @ quoted project_name
                  @ ''. The 'vectorstore' directory may still exist or be partially deleted.''))"

text \<open>
  The path is the one positional argument of \<^verbatim>\<open>clear_vector_store\<close>; the call is recorded
  with it under the name \<open>filepath\<close>.
\<close>

definition clear_vectorstore_api :: "env \<Rightarrow> json \<Rightarrow> world \<Rightarrow> outcome" where
  "clear_vectorstore_api env request_json w =
     (if \<not> truthy request_json
      then responded (error_response 400 ''Request body must be JSON.'') w
      else
     (case request_json of
        JObj data \<Rightarrow>
     (case os_path_join env (get_projects_base_path env)
             (dict_get data ''project_name'' (JStr ''default_project'')) of
        Inl e \<Rightarrow> unhandled e w
      | Inr filepath \<Rightarrow>
          if \<not> os_path_isdir filepath w
          then responded
                 (error_response 404 (''Project directory '' @ quoted filepath @ '' not found.'')) w
          else delegated ''clear_vector_store'' [(''filepath'', JStr filepath)]
                 (clear_vector_store env filepath w)
                 (clear_result (py_str env (dict_get data ''project_name'' (JStr ''default_project'')))))
      | _ \<Rightarrow> unhandled (Exn AttributeError (interp_text env ''get'' [request_json])) w))"

subsection \<open>\<^verbatim>\<open>POST /api/novel/check_consistency\<close>\<close>

text \<open>The first \<^verbatim>\<open>try\<close> block of the handler: the five reads, each but the last checked.\<close>

definition read_project_files ::
  "env \<Rightarrow> string \<Rightarrow> int \<Rightarrow> world \<Rightarrow> py_exn + (string \<times> string \<times> string \<times> string \<times> string)" where
  "read_project_files env filepath chapter_number w =
     (case read_file env (posix_join filepath ''Novel_architecture.txt'') w of
        Inl e \<Rightarrow> Inl e
      | Inr novel_setting_text \<Rightarrow>
          if novel_setting_text = []
          then Inl (Exn FileNotFoundError
                      (''Novel_architecture.txt not found or empty in '' @ quoted filepath))
          else
     (case read_file env (posix_join filepath ''character_state.txt'') w of
        Inl e \<Rightarrow> Inl e
      | Inr character_state_text \<Rightarrow>
          if character_state_text = []
          then Inl (Exn FileNotFoundError
                      (''character_state.txt not found or empty in '' @ quoted filepath))
          else
     (case read_file env (posix_join filepath ''global_summary.txt'') w of
        Inl e \<Rightarrow> Inl e
      | Inr global_summary_text \<Rightarrow>
          if global_summary_text = []
          then Inl (Exn FileNotFoundError
                      (''global_summary.txt not found or empty in '' @ quoted filepath))
          else
     (case read_file env
             (posix_join (posix_join filepath ''chapters'')
                (''chapter_'' @ string_of_int chapter_number @ ''.txt'')) w of
        Inl e \<Rightarrow> Inl e
      | Inr chapter_text_content \<Rightarrow>
          if chapter_text_content = []
          then Inl (Exn FileNotFoundError
                      (''Chapter file ''
                       @ quoted (posix_join (posix_join filepath ''chapters'')
                                   (''chapter_'' @ string_of_int chapter_number @ ''.txt''))
                       @ '' not found or empty.''))
          else
     (case read_file env (posix_join filepath ''plot_arcs.txt'') w of
        Inl e \<Rightarrow> Inl e
      | Inr plot_arcs_text \<Rightarrow>
          Inr (novel_setting_text, character_state_text, global_summary_text,
               chapter_text_content, plot_arcs_text))))))"

definition consistency_result :: "py_exn + json \<Rightarrow> response" where
  "consistency_result r =
     (case r of
        Inl e \<Rightarrow> error_response 500 (''Error during consistency check: '' @ exn_str e)
      | Inr report \<Rightarrow>
          \<lparr>status_code = 200,
           json_body = JObj [(''status'', JStr ''success''), (''consistency_report'', report)]\<rparr>)"

definition check_consistency_api :: "env \<Rightarrow> json \<Rightarrow> world \<Rightarrow> outcome" where
  "check_consistency_api env request_json w =
     (if \<not> truthy request_json
      then responded (error_response 400 ''Request body must be JSON.'') w
      else
     (case request_json of
        JObj data \<Rightarrow>
     (case os_path_join env (get_projects_base_path env)
             (dict_get data ''project_name'' (JStr ''default_project'')) of
        Inl e \<Rightarrow> unhandled e w
      | Inr filepath \<Rightarrow>
          if dict_get data ''chapter_number'' JNull = JNull
          then responded (error_response 400 ''Missing 'chapter_number'.'') w
          else
     (case py_int env (dict_get data ''chapter_number'' JNull) of
        Inl e \<Rightarrow>
          if exn_class_of e = ValueError
          then responded (error_response 400 ''Invalid 'chapter_number', must be an integer.'') w
          else unhandled e w
      | Inr chapter_number \<Rightarrow>
     (case get_llm_config env w of
        Inl e \<Rightarrow> unhandled e w
      | Inr (llm_config, llm_interface_format, llm_error_msg) \<Rightarrow>
          if truthy llm_error_msg
          then responded (error_response 500 (''LLM Config Error: '' @ py_str env llm_error_msg)) w
          else
     (case read_project_files env filepath chapter_number w of
        Inl e \<Rightarrow>
          if exn_class_of e = FileNotFoundError
          then responded (error_response 404 (''Required file issue: '' @ exn_str e)) w
          else responded (error_response 500 (''Error reading project files: '' @ exn_str e)) w
      | Inr (novel_setting_text, character_state_text, global_summary_text,
             chapter_text_content, plot_arcs_text) \<Rightarrow>
     (case eval_kwargs
             ([(''novel_setting'', Inr (JStr novel_setting_text)),
               (''character_state'', Inr (JStr character_state_text)),
               (''global_summary'', Inr (JStr global_summary_text)),
               (''chapter_text'', Inr (JStr chapter_text_content))] @
              llm_args_chapter env llm_config llm_interface_format @
              [(''plot_arcs'', Inr (JStr plot_arcs_text))]) of
        Inl e \<Rightarrow> responded (consistency_result (Inl e)) w
      | Inr kw \<Rightarrow>
          delegated ''check_consistency'' kw (check_consistency env kw w) consistency_result)))))
      | _ \<Rightarrow> unhandled (Exn AttributeError (interp_text env ''get'' [request_json])) w))"

section \<open>The configuration store\<close>

text \<open>
  Modelled from the spec: \<^verbatim>\<open>load_config\<close> of the module \<^verbatim>\<open>config_manager\<close>, which
  \<^verbatim>\<open>app.py\<close> imports and which is not among the source files. The spec says that the
  configuration document is round-tripped to disk verbatim: loading gives the document
  stored under the path, and the empty object when there is none (the document that
  \<open>get_llm_config\<close> reports as not found or empty).
\<close>

definition config_manager_load_config :: "string \<Rightarrow> world \<Rightarrow> py_exn + json" where
  "config_manager_load_config config_file w =
     Inr (case documents w config_file of None \<Rightarrow> JObj [] | Some d \<Rightarrow> d)"

text \<open>
  Modelled from the spec: \<^verbatim>\<open>save_config\<close> of the module \<^verbatim>\<open>config_manager\<close>, not among the
  source files either. It stores the document under the path as it is and returns
  \<^verbatim>\<open>True\<close>; where the path cannot be written it stores nothing and returns \<^verbatim>\<open>False\<close>, the
  result \<open>save_config_api\<close> answers with status 500.
\<close>

definition config_manager_save_config :: "json \<Rightarrow> string \<Rightarrow> world \<Rightarrow> (py_exn + json) \<times> world" where
  "config_manager_save_config config_data config_file w =
     (if config_file \<in> read_only w then (Inr (JBool False), w)
      else (Inr (JBool True), w\<lparr>documents := (documents w)(config_file \<mapsto> config_data)\<rparr>))"

definition with_config_manager :: "env \<Rightarrow> env" where
  "with_config_manager env =
     env\<lparr>load_config := config_manager_load_config, save_config := config_manager_save_config\<rparr>"

section \<open>Vocabulary of the properties\<close>

text \<open>
  The project directory of a request with the object \<open>data\<close> as body: every handler
  computes it first (\<^verbatim>\<open>os.path.join(get_projects_base_path(), project_name)\<close>).
\<close>

definition project_dir :: "env \<Rightarrow> (string \<times> json) list \<Rightarrow> py_exn + string" where
  "project_dir env data =
     os_path_join env (get_projects_base_path env)
       (dict_get data ''project_name'' (JStr ''default_project''))"

text \<open>\<^verbatim>\<open>os.makedirs\<close> on the project directory returned and left the world \<open>w1\<close>.\<close>

definition dir_created :: "env \<Rightarrow> (string \<times> json) list \<Rightarrow> world \<Rightarrow> world \<Rightarrow> bool" where
  "dir_created env data w w1 =
     (case project_dir env data of
        Inl e \<Rightarrow> False
      | Inr filepath \<Rightarrow> os_makedirs env filepath w = (None, w1))"

text \<open>The configuration helpers return without an error message.\<close>

definition llm_config_ok :: "env \<Rightarrow> world \<Rightarrow> bool" where
  "llm_config_ok env w =
     (case get_llm_config env w of
        Inl e \<Rightarrow> False
      | Inr (llm_config, interface_format, error_msg) \<Rightarrow> \<not> truthy error_msg)"

definition embedding_config_ok :: "env \<Rightarrow> world \<Rightarrow> bool" where
  "embedding_config_ok env w =
     (case get_embedding_config env w of
        Inl e \<Rightarrow> False
      | Inr (embedding_config, interface_format, error_msg) \<Rightarrow> \<not> truthy error_msg)"

text \<open>
  The handler answered with the status \<open>code\<close> and the JSON error shape
  \<^verbatim>\<open>{"status": "error", "message": msg}\<close>, where \<open>msg\<close> contains the text \<open>t\<close>.
\<close>

definition error_reply :: "nat \<Rightarrow> string \<Rightarrow> outcome \<Rightarrow> bool" where
  "error_reply code t out =
     (case reply out of
        Inl e \<Rightarrow> False
      | Inr resp \<Rightarrow>
          status_code resp = code \<and>
          (case json_body resp of
             JObj kvs \<Rightarrow>
               (case map_of kvs ''message'' of
                  Some (JStr msg) \<Rightarrow> json_body resp = error_body msg \<and> sublist t msg
                | _ \<Rightarrow> False)
           | _ \<Rightarrow> False))"

text \<open>The configuration is missing, in the three ways \<open>get_llm_config\<close> tells apart:
  the document is empty; the selected interface is not in \<^verbatim>\<open>llm_configs\<close>; the selected
  configuration is an object in which a required key is absent or has a false value.\<close>

definition key_missing :: "(string \<times> json) list \<Rightarrow> string \<Rightarrow> bool" where
  "key_missing cfg k = (case map_of cfg k of None \<Rightarrow> True | Some v \<Rightarrow> \<not> truthy v)"

definition config_lacks_llm :: "env \<Rightarrow> json \<Rightarrow> bool" where
  "config_lacks_llm env config =
     (if \<not> truthy config then True
      else case config of
        JObj kvs \<Rightarrow>
          (case py_in env (dict_get kvs ''last_interface_format'' (JStr ''OpenAI''))
                  (dict_get kvs ''llm_configs'' (JObj [])) of
             Inl e \<Rightarrow> False
           | Inr found \<Rightarrow>
               if \<not> found then True
               else case py_getitem env (dict_get kvs ''llm_configs'' (JObj []))
                           (dict_get kvs ''last_interface_format'' (JStr ''OpenAI'')) of
                      Inr (JObj cfg) \<Rightarrow>
                        list_ex (key_missing cfg)
                          (llm_required_keys (dict_get kvs ''last_interface_format'' (JStr ''OpenAI'')))
                    | _ \<Rightarrow> False)
      | _ \<Rightarrow> False)"


text \<open>A library function that leaves the directory \<open>p\<close> in place.\<close>

definition keeps_dir :: "(kwargs \<Rightarrow> world \<Rightarrow> (py_exn + json) \<times> world) \<Rightarrow> string \<Rightarrow> bool" where
  "keeps_dir generate p = (\<forall>kw w. p \<in> dirs w \<longrightarrow> p \<in> dirs (snd (generate kw w)))"

section \<open>The fixture of \<^verbatim>\<open>test_app.py\<close>\<close>

text \<open>
  The configuration document, the two overrides and the project directory that
  \<^verbatim>\<open>setUp\<close> creates; the library functions return \<^verbatim>\<open>None\<close>, as the mock of the test does,
  and the project holds every text but \<^verbatim>\<open>plot_arcs.txt\<close>.
\<close>

definition test_config :: json where
  "test_config =
     JObj [(''last_interface_format'', JStr ''TestLLM''),
           (''llm_configs'',
            JObj [(''TestLLM'',
                   JObj [(''api_key'', JStr ''test_key''),
                         (''base_url'', JStr ''http://localhost/test''),
                         (''model_name'', JStr ''test_model''),
                         (''temperature'', JFloat (1 / 2)),
                         (''max_tokens'', JInt 100),
                         (''timeout'', JInt 60)])]),
           (''last_embedding_interface_format'', JStr ''TestEmbed''),
           (''embedding_configs'',
            JObj [(''TestEmbed'',
                   JObj [(''api_key'', JStr ''embed_key''),
                         (''model_name'', JStr ''embed_model'')])]),
           (''other_params'', JObj [])]"

definition test_float :: "json \<Rightarrow> py_exn + json" where
  "test_float v =
     (case v of
        JFloat r \<Rightarrow> Inr (JFloat r)
      | JInt n \<Rightarrow> Inr (JFloat (of_int n))
      | _ \<Rightarrow> Inl (Exn TypeError ''float''))"

definition test_read_file :: "string \<Rightarrow> world \<Rightarrow> py_exn + string" where
  "test_read_file p w =
     Inr (if p = ''test_novel_projects/default_project_test/plot_arcs.txt'' then []
          else ''Test content.'')"

definition test_env :: env where
  "test_env =
     \<lparr>CONFIG_FILE_OVERRIDE = Some ''test_config.json'',
      PROJECTS_BASE_PATH_OVERRIDE = Some ''test_novel_projects'',
      interp_text = (\<lambda>op args. op),
      py_repr = (\<lambda>v. ''...''),
      py_float = test_float,
      int_max_str_digits = 4300,
      mkdir_error = (\<lambda>p w. None),
      load_config = config_manager_load_config,
      save_config = config_manager_save_config,
      read_file = test_read_file,
      Novel_architecture_generate = (\<lambda>kw w. (Inr JNull, w)),
      Chapter_blueprint_generate = (\<lambda>kw w. (Inr JNull, w)),
      generate_chapter_draft = (\<lambda>kw w. (Inr (JStr ''Draft.''), w)),
      finalize_chapter = (\<lambda>kw w. (Inr JNull, w)),
      clear_vector_store = (\<lambda>p w. (Inr (JBool True), w)),
      check_consistency = (\<lambda>kw w. (Inr (JStr ''No conflict.''), w))\<rparr>"

definition test_world :: world where
  "test_world =
     \<lparr>dirs = {''test_novel_projects/default_project_test''},
      documents = [''test_config.json'' \<mapsto> test_config],
      read_only = {}\<rparr>"

text \<open>The same world before a configuration was saved.\<close>

definition no_config_world :: world where
  "no_config_world = test_world\<lparr>documents := Map.empty\<rparr>"

text \<open>An operating system that refuses to create any directory.\<close>

definition denied_env :: env where
  "denied_env = test_env\<lparr>mkdir_error := (\<lambda>p w. Some (Exn OSError ''Permission denied''))\<rparr>"

text \<open>Library functions that fail: the generator of the architecture with an error of its
  own, the three others for want of a file that an earlier step writes.\<close>

definition failing_env :: env where
  "failing_env =
     test_env
       \<lparr>Novel_architecture_generate := (\<lambda>kw w. (Inl (Exn OtherException ''rate limit''), w)),
        Chapter_blueprint_generate :=
          (\<lambda>kw w. (Inl (Exn FileNotFoundError ''Novel_architecture.txt''), w)),
        generate_chapter_draft :=
          (\<lambda>kw w. (Inl (Exn FileNotFoundError ''Novel_directory.txt''), w)),
        finalize_chapter := (\<lambda>kw w. (Inl (Exn FileNotFoundError ''chapter_1.txt''), w)),
        clear_vector_store := (\<lambda>p w. (Inr (JBool False), w))\<rparr>"


definition test_request :: json where
  "test_request =
     JObj [(''project_name'', JStr ''default_project_test''),
           (''topic'', JStr ''Test Topic''),
           (''genre'', JStr ''Test Genre''),
           (''num_chapters'', JInt 3),
           (''word_number'', JInt 100),
           (''user_guidance'', JStr ''Test guidance'')]"

text \<open>The arguments with which the request of the test reaches the generator.\<close>

definition test_architecture_kwargs :: kwargs where
  "test_architecture_kwargs =
     [(''interface_format'', JStr ''TestLLM''), (''api_key'', JStr ''test_key''),
      (''base_url'', JStr ''http://localhost/test''), (''llm_model'', JStr ''test_model''),
      (''temperature'', JFloat (1 / 2)), (''max_tokens'', JInt 100), (''timeout'', JInt 60),
      (''topic'', JStr ''Test Topic''), (''genre'', JStr ''Test Genre''),
      (''number_of_chapters'', JInt 3), (''word_number'', JInt 100),
      (''filepath'', JStr ''test_novel_projects/default_project_test''),
      (''user_guidance'', JStr ''Test guidance'')]"

text \<open>A request for a chapter, and the arguments with which the fixture's requests reach
  the other generators.\<close>

definition test_chapter_request :: json where
  "test_chapter_request =
     JObj [(''project_name'', JStr ''default_project_test''),
           (''novel_number'', JInt 1),
           (''word_number'', JInt 100)]"

definition test_blueprint_kwargs :: kwargs where
  "test_blueprint_kwargs =
     [(''interface_format'', JStr ''TestLLM''), (''api_key'', JStr ''test_key''),
      (''base_url'', JStr ''http://localhost/test''), (''llm_model'', JStr ''test_model''),
      (''temperature'', JFloat (1 / 2)), (''max_tokens'', JInt 100), (''timeout'', JInt 60),
      (''filepath'', JStr ''test_novel_projects/default_project_test''),
      (''number_of_chapters'', JInt 3),
      (''user_guidance'', JStr ''Test guidance'')]"

definition test_finalize_kwargs :: kwargs where
  "test_finalize_kwargs =
     [(''api_key'', JStr ''test_key''), (''base_url'', JStr ''http://localhost/test''),
      (''model_name'', JStr ''test_model''), (''temperature'', JFloat (1 / 2)),
      (''interface_format'', JStr ''TestLLM''), (''max_tokens'', JInt 100),
      (''timeout'', JInt 60), (''embedding_api_key'', JStr ''embed_key''),
      (''embedding_url'', JNull), (''embedding_interface_format'', JStr ''TestEmbed''),
      (''embedding_model_name'', JStr ''embed_model''),
      (''filepath'', JStr ''test_novel_projects/default_project_test''),
      (''novel_number'', JInt 1), (''word_number'', JInt 100)]"

definition test_draft_kwargs :: kwargs where
  "test_draft_kwargs =
     [(''api_key'', JStr ''test_key''), (''base_url'', JStr ''http://localhost/test''),
      (''model_name'', JStr ''test_model''), (''temperature'', JFloat (1 / 2)),
      (''interface_format'', JStr ''TestLLM''), (''max_tokens'', JInt 100),
      (''timeout'', JInt 60), (''embedding_api_key'', JStr ''embed_key''),
      (''embedding_url'', JNull), (''embedding_interface_format'', JStr ''TestEmbed''),
      (''embedding_model_name'', JStr ''embed_model''),
      (''embedding_retrieval_k'', JInt 4),
      (''filepath'', JStr ''test_novel_projects/default_project_test''),
      (''novel_number'', JInt 1), (''word_number'', JInt 100),
      (''user_guidance'', JStr []), (''characters_involved'', JStr []),
      (''key_items'', JStr []), (''scene_location'', JStr []),
      (''time_constraint'', JStr []), (''custom_prompt_text'', JNull)]"

text \<open>A request for a consistency check, and the arguments with which it reaches the
  checker.\<close>

definition test_consistency_request :: json where
  "test_consistency_request =
     JObj [(''project_name'', JStr ''default_project_test''), (''chapter_number'', JInt 1)]"

definition test_consistency_kwargs :: kwargs where
  "test_consistency_kwargs =
     [(''novel_setting'', JStr ''Test content.''),
      (''character_state'', JStr ''Test content.''),
      (''global_summary'', JStr ''Test content.''),
      (''chapter_text'', JStr ''Test content.''),
      (''api_key'', JStr ''test_key''), (''base_url'', JStr ''http://localhost/test''),
      (''model_name'', JStr ''test_model''), (''temperature'', JFloat (1 / 2)),
      (''interface_format'', JStr ''TestLLM''), (''max_tokens'', JInt 100),
      (''timeout'', JInt 60), (''plot_arcs'', JStr [])]"

text \<open>A request to clear the vector store of the fixture's project.\<close>

definition test_clear_request :: json where
  "test_clear_request = JObj [(''project_name'', JStr ''default_project_test'')]"

text \<open>The world of the fixture after \<^verbatim>\<open>os.makedirs\<close> on the default project, and a body
  that names the project of the fixture and nothing else.\<close>

definition test_after_makedirs :: world where
  "test_after_makedirs = snd (os_makedirs test_env ''test_novel_projects/default_project'' test_world)"

definition test_bare_data :: "(string \<times> json) list" where
  "test_bare_data = [(''project_name'', JStr ''default_project_test'')]"

text \<open>The reply to a request that found the configuration missing: status 500, the
  message \<^verbatim>\<open>LLM Config Error: \<close> followed by the text \<open>t\<close>, and no call.\<close>

definition config_error_reply :: "string \<Rightarrow> outcome \<Rightarrow> bool" where
  "config_error_reply t out =
     (reply out = Inr (error_response 500 (''LLM Config Error: '' @ t)) \<and> calls out = [])"


section \<open>Properties\<close>

subsection \<open>Outcomes and error replies\<close>

lemma calls_responded [simp]: "calls (responded r w) = []"
  by (simp add: responded_def)

lemma calls_unhandled [simp]: "calls (unhandled e w) = []"
  by (simp add: unhandled_def)

lemma calls_delegated [simp]: "calls (delegated name kw res k) = [Call name kw (fst res)]"
  by (simp add: delegated_def)

lemma reply_responded [simp]: "reply (responded r w) = Inr r"
  by (simp add: responded_def)

lemma reply_unhandled [simp]: "reply (unhandled e w) = Inl e"
  by (simp add: unhandled_def)

lemma reply_delegated [simp]: "reply (delegated name kw res k) = Inr (k (fst res))"
  by (simp add: delegated_def)

lemma after_responded [simp]: "after (responded r w) = w"
  by (simp add: responded_def)

lemma after_unhandled [simp]: "after (unhandled e w) = w"
  by (simp add: unhandled_def)

lemma after_delegated [simp]: "after (delegated name kw res k) = snd res"
  by (simp add: delegated_def)

lemma error_replyI:
  "reply out = Inr (error_response code msg) \<Longrightarrow> sublist t msg \<Longrightarrow> error_reply code t out"
  by (simp add: error_reply_def error_response_def error_body_def)

lemma sublist_suffix_text: "sublist t (p @ t)"
  by (metis sublist_appendI append_Nil2)

subsection \<open>Steps that passed\<close>

lemma dir_createdE:
  assumes "dir_created env data w w1"
  obtains filepath where "project_dir env data = Inr filepath"
    "os_makedirs env filepath w = (None, w1)"
  using assms by (auto simp: dir_created_def split: sum.splits)

lemma llm_config_okE:
  assumes "llm_config_ok env w"
  obtains llm_config interface_format error_msg where
    "get_llm_config env w = Inr (llm_config, interface_format, error_msg)" "\<not> truthy error_msg"
  using assms by (auto simp: llm_config_ok_def split: sum.splits)

lemma embedding_config_okE:
  assumes "embedding_config_ok env w"
  obtains embedding_config interface_format error_msg where
    "get_embedding_config env w = Inr (embedding_config, interface_format, error_msg)"
    "\<not> truthy error_msg"
  using assms by (auto simp: embedding_config_ok_def split: sum.splits)

subsection \<open>The architecture route\<close>

lemma architecture_except_reply:
  "\<exists>msg. architecture_except e = error_response 500 msg \<and> sublist (exn_str e) msg"
  unfolding architecture_except_def
  by (simp only: split: if_split) (blast intro: sublist_suffix_text)

lemma architecture_reaches_call:
  assumes c: "calls (generate_architecture_api env request_json w) = [Call name kw r]"
  obtains data filepath w1 where
    "request_json = JObj data" "project_dir env data = Inr filepath"
    "os_makedirs env filepath w = (None, w1)"
    "generate_architecture_api env request_json w =
       delegated ''Novel_architecture_generate'' kw (Novel_architecture_generate env kw w1)
         (architecture_result filepath)"
proof -
  note d = generate_architecture_api_def project_dir_def
  from c obtain data where 1: "request_json = JObj data"
    by (cases request_json) (simp_all add: d)
  from c 1 obtain filepath where 2: "project_dir env data = Inr filepath"
    by (cases "project_dir env data") (simp_all add: d)
  from c 1 2 obtain w1 where 3: "os_makedirs env filepath w = (None, w1)"
    by (cases "os_makedirs env filepath w"; cases "fst (os_makedirs env filepath w)")
       (simp_all add: d split: if_splits)
  from c 1 2 3 obtain llm_config interface_format error_msg where
    4: "get_llm_config env w1 = Inr (llm_config, interface_format, error_msg)"
    by (cases "get_llm_config env w1") (auto simp add: d)
  from c 1 2 3 4 have 5: "\<not> truthy error_msg" "data \<noteq> []"
    by (auto simp add: d split: if_splits)
  from c 1 2 3 4 5 obtain num_chapters where
    6: "py_int env (dict_get data ''num_chapters'' (JInt 10)) = Inr num_chapters"
    by (cases "py_int env (dict_get data ''num_chapters'' (JInt 10))") (simp_all add: d)
  from c 1 2 3 4 5 6 obtain word_number where
    7: "py_int env (dict_get data ''word_number'' (JInt 3000)) = Inr word_number"
    by (cases "py_int env (dict_get data ''word_number'' (JInt 3000))") (simp_all add: d)
  from c 1 2 3 4 5 6 7
  have "generate_architecture_api env request_json w =
       delegated ''Novel_architecture_generate'' kw (Novel_architecture_generate env kw w1)
         (architecture_result filepath)"
    by (simp add: d split: sum.splits)
  with 1 2 3 that show thesis by blast
qed

text \<open>
  Claim C7. A request to \<^verbatim>\<open>POST /api/novel/architecture\<close> that reaches the call to
  \<^verbatim>\<open>Novel_architecture_generate\<close>: the body is an object, the project directory was
  created, and the call is the one recorded. When the call raises \<open>e\<close>, the response has
  status 500 and the JSON error shape, and its message contains \<^verbatim>\<open>str(e)\<close>; when it
  returns, the response has status 200 with the status \<open>success\<close> and the project
  filepath.
\<close>

theorem architecture_call_outcome:
  assumes "calls (generate_architecture_api env request_json w) = [Call name kw r]"
  shows "\<exists>data filepath w1.
           request_json = JObj data \<and> project_dir env data = Inr filepath \<and>
           os_makedirs env filepath w = (None, w1) \<and>
           name = ''Novel_architecture_generate'' \<and>
           r = fst (Novel_architecture_generate env kw w1) \<and>
           (case r of
              Inl e \<Rightarrow> error_reply 500 (exn_str e) (generate_architecture_api env request_json w)
            | Inr v \<Rightarrow>
                reply (generate_architecture_api env request_json w) =
                  Inr \<lparr>status_code = 200,
                       json_body = JObj [(''status'', JStr ''success''),
                                         (''message'', JStr ''Novel architecture generated.''),
                                         (''filepath'', JStr filepath)]\<rparr>)"
proof -
  from assms obtain data filepath w1 where
    1: "request_json = JObj data" "project_dir env data = Inr filepath"
       "os_makedirs env filepath w = (None, w1)" and
    2: "generate_architecture_api env request_json w =
       delegated ''Novel_architecture_generate'' kw (Novel_architecture_generate env kw w1)
         (architecture_result filepath)"
    by (rule architecture_reaches_call)
  from assms 2 have 3: "name = ''Novel_architecture_generate''"
    "fst (Novel_architecture_generate env kw w1) = r"
    by simp_all
  have "case r of
          Inl e \<Rightarrow> error_reply 500 (exn_str e) (generate_architecture_api env request_json w)
        | Inr v \<Rightarrow>
            reply (generate_architecture_api env request_json w) =
              Inr \<lparr>status_code = 200,
                   json_body = JObj [(''status'', JStr ''success''),
                                     (''message'', JStr ''Novel architecture generated.''),
                                     (''filepath'', JStr filepath)]\<rparr>"
  proof (cases r)
    case (Inl e)
    obtain msg where "architecture_except e = error_response 500 msg" "sublist (exn_str e) msg"
      using architecture_except_reply by blast
    with Inl 2 3 show ?thesis
      by (simp add: architecture_result_def error_replyI)
  next
    case (Inr v)
    with 2 3 show ?thesis
      by (simp add: architecture_result_def)
  qed
  with 1 3 show ?thesis by blast
qed

theorem architecture_call_outcome_witness:
  "calls (generate_architecture_api test_env test_request test_world) =
     [Call ''Novel_architecture_generate'' test_architecture_kwargs (Inr JNull)] \<and>
   reply (generate_architecture_api test_env test_request test_world) =
     Inr \<lparr>status_code = 200,
          json_body = JObj [(''status'', JStr ''success''),
                            (''message'', JStr ''Novel architecture generated.''),
                            (''filepath'', JStr ''test_novel_projects/default_project_test'')]\<rparr> \<and>
   calls (generate_architecture_api failing_env test_request test_world) =
     [Call ''Novel_architecture_generate'' test_architecture_kwargs
        (Inl (Exn OtherException ''rate limit''))] \<and>
   error_reply 500 ''rate limit'' (generate_architecture_api failing_env test_request test_world)"
proof -
  have c: "calls (generate_architecture_api test_env test_request test_world) =
     [Call ''Novel_architecture_generate'' test_architecture_kwargs (Inr JNull)]"
    by code_simp
  have p: "project_dir test_env
             [(''project_name'', JStr ''default_project_test''),
              (''topic'', JStr ''Test Topic''),
              (''genre'', JStr ''Test Genre''),
              (''num_chapters'', JInt 3),
              (''word_number'', JInt 100),
              (''user_guidance'', JStr ''Test guidance'')] = Inr ''test_novel_projects/default_project_test''"
    by code_simp
  have f: "calls (generate_architecture_api failing_env test_request test_world) =
     [Call ''Novel_architecture_generate'' test_architecture_kwargs
        (Inl (Exn OtherException ''rate limit''))]"
    by code_simp
  from architecture_call_outcome [OF c] p
  have "reply (generate_architecture_api test_env test_request test_world) =
     Inr \<lparr>status_code = 200,
          json_body = JObj [(''status'', JStr ''success''),
                            (''message'', JStr ''Novel architecture generated.''),
                            (''filepath'', JStr ''test_novel_projects/default_project_test'')]\<rparr>"
    by (auto simp: test_request_def)
  moreover from architecture_call_outcome [OF f]
  have "error_reply 500 ''rate limit'' (generate_architecture_api failing_env test_request test_world)"
    by auto
  ultimately show ?thesis using c f by blast
qed

subsection \<open>The routes that need files of earlier steps\<close>

lemma blueprint_reaches_call:
  assumes c: "calls (generate_blueprint_api env request_json w) = [Call name kw r]"
  obtains data filepath w1 where
    "request_json = JObj data" "project_dir env data = Inr filepath"
    "os_makedirs env filepath w = (None, w1)"
    "generate_blueprint_api env request_json w =
       delegated ''Chapter_blueprint_generate'' kw (Chapter_blueprint_generate env kw w1)
         (blueprint_result filepath)"
proof -
  note d = generate_blueprint_api_def project_dir_def
  from c obtain data where 1: "request_json = JObj data"
    by (cases request_json) (simp_all add: d)
  from c 1 obtain filepath where 2: "project_dir env data = Inr filepath"
    by (cases "project_dir env data") (simp_all add: d)
  from c 1 2 obtain w1 where 3: "os_makedirs env filepath w = (None, w1)"
    by (cases "os_makedirs env filepath w"; cases "fst (os_makedirs env filepath w)")
       (simp_all add: d split: if_splits)
  from c 1 2 3 obtain llm_config interface_format error_msg where
    4: "get_llm_config env w1 = Inr (llm_config, interface_format, error_msg)"
    by (cases "get_llm_config env w1") (auto simp add: d)
  from c 1 2 3 4 have 5: "\<not> truthy error_msg" "data \<noteq> []"
    "dict_get data ''num_chapters'' JNull \<noteq> JNull"
    by (auto simp add: d split: if_splits)
  from c 1 2 3 4 5 obtain num_chapters where
    6: "py_int env (dict_get data ''num_chapters'' JNull) = Inr num_chapters"
    by (cases "py_int env (dict_get data ''num_chapters'' JNull)")
       (simp_all add: d split: if_splits)
  from c 1 2 3 4 5 6
  have "generate_blueprint_api env request_json w =
       delegated ''Chapter_blueprint_generate'' kw (Chapter_blueprint_generate env kw w1)
         (blueprint_result filepath)"
    by (simp add: d split: sum.splits)
  with 1 2 3 that show thesis by blast
qed

lemma chapter_draft_reaches_call:
  assumes c: "calls (generate_chapter_draft_api env request_json w) = [Call name kw r]"
  obtains data filepath w1 novel_number where
    "request_json = JObj data" "project_dir env data = Inr filepath"
    "os_makedirs env filepath w = (None, w1)"
    "generate_chapter_draft_api env request_json w =
       delegated ''generate_chapter_draft'' kw (generate_chapter_draft env kw w1)
         (chapter_draft_result filepath novel_number)"
proof -
  note d = generate_chapter_draft_api_def project_dir_def
  from c obtain data where 1: "request_json = JObj data"
    by (cases request_json) (simp_all add: d)
  from c 1 obtain filepath where 2: "project_dir env data = Inr filepath"
    by (cases "project_dir env data") (simp_all add: d)
  from c 1 2 obtain w1 where 3: "os_makedirs env filepath w = (None, w1)"
    by (cases "os_makedirs env filepath w"; cases "fst (os_makedirs env filepath w)")
       (simp_all add: d split: if_splits)
  from c 1 2 3 obtain llm_config interface_format error_msg where
    4: "get_llm_config env w1 = Inr (llm_config, interface_format, error_msg)"
    by (cases "get_llm_config env w1") (auto simp add: d)
  from c 1 2 3 4 have 5: "\<not> truthy error_msg"
    by (auto simp add: d split: if_splits)
  from c 1 2 3 4 5 obtain embedding_config embedding_format embedding_msg where
    6: "get_embedding_config env w1 = Inr (embedding_config, embedding_format, embedding_msg)"
    by (cases "get_embedding_config env w1") (auto simp add: d)
  from c 1 2 3 4 5 6 have 7: "\<not> truthy embedding_msg" "data \<noteq> []"
    "dict_get data ''novel_number'' JNull \<noteq> JNull"
    "dict_get data ''word_number'' JNull \<noteq> JNull"
    by (auto simp add: d split: if_splits)
  from c 1 2 3 4 5 6 7 obtain novel_number where
    8: "py_int env (dict_get data ''novel_number'' JNull) = Inr novel_number"
    by (cases "py_int env (dict_get data ''novel_number'' JNull)")
       (simp_all add: d split: if_splits)
  from c 1 2 3 4 5 6 7 8 obtain word_number where
    9: "py_int env (dict_get data ''word_number'' JNull) = Inr word_number"
    by (cases "py_int env (dict_get data ''word_number'' JNull)")
       (simp_all add: d split: if_splits)
  from c 1 2 3 4 5 6 7 8 9 obtain k where
    10: "py_int env (dict_get data ''embedding_retrieval_k'' (JStr ''4'')) = Inr k"
    by (cases "py_int env (dict_get data ''embedding_retrieval_k'' (JStr ''4''))")
       (simp_all add: d split: if_splits)
  from c 1 2 3 4 5 6 7 8 9 10
  have "generate_chapter_draft_api env request_json w =
       delegated ''generate_chapter_draft'' kw (generate_chapter_draft env kw w1)
         (chapter_draft_result filepath novel_number)"
    by (simp add: d split: sum.splits)
  with 1 2 3 that show thesis by blast
qed

lemma finalize_reaches_call:
  assumes c: "calls (finalize_chapter_api env request_json w) = [Call name kw r]"
  obtains data filepath novel_number where
    "request_json = JObj data" "project_dir env data = Inr filepath"
    "finalize_chapter_api env request_json w =
       delegated ''finalize_chapter'' kw (finalize_chapter env kw w)
         (finalize_result filepath novel_number)"
proof -
  note d = finalize_chapter_api_def project_dir_def
  from c obtain data where 1: "request_json = JObj data"
    by (cases request_json) (simp_all add: d)
  from c 1 obtain filepath where 2: "project_dir env data = Inr filepath"
    by (cases "project_dir env data") (simp_all add: d)
  from c 1 2 obtain llm_config interface_format error_msg where
    4: "get_llm_config env w = Inr (llm_config, interface_format, error_msg)"
    by (cases "get_llm_config env w") (auto simp add: d)
  from c 1 2 4 have 5: "\<not> truthy error_msg"
    by (auto simp add: d split: if_splits)
  from c 1 2 4 5 obtain embedding_config embedding_format embedding_msg where
    6: "get_embedding_config env w = Inr (embedding_config, embedding_format, embedding_msg)"
    by (cases "get_embedding_config env w") (auto simp add: d)
  from c 1 2 4 5 6 have 7: "\<not> truthy embedding_msg" "data \<noteq> []"
    "dict_get data ''novel_number'' JNull \<noteq> JNull"
    "dict_get data ''word_number'' JNull \<noteq> JNull"
    by (auto simp add: d split: if_splits)
  from c 1 2 4 5 6 7 obtain novel_number where
    8: "py_int env (dict_get data ''novel_number'' JNull) = Inr novel_number"
    by (cases "py_int env (dict_get data ''novel_number'' JNull)")
       (simp_all add: d split: if_splits)
  from c 1 2 4 5 6 7 8 obtain word_number where
    9: "py_int env (dict_get data ''word_number'' JNull) = Inr word_number"
    by (cases "py_int env (dict_get data ''word_number'' JNull)")
       (simp_all add: d split: if_splits)
  from c 1 2 4 5 6 7 8 9
  have "finalize_chapter_api env request_json w =
       delegated ''finalize_chapter'' kw (finalize_chapter env kw w)
         (finalize_result filepath novel_number)"
    by (simp add: d split: sum.splits)
  with 1 2 that show thesis by blast
qed

lemma not_found_reply:
  assumes "exn_class_of e = FileNotFoundError"
  shows "\<exists>msg. blueprint_except e = error_response 400 msg \<and> sublist (exn_str e) msg"
    and "\<exists>msg. chapter_draft_except e = error_response 400 msg \<and> sublist (exn_str e) msg"
    and "\<exists>msg. finalize_except e = error_response 400 msg \<and> sublist (exn_str e) msg"
  using assms
  unfolding blueprint_except_def chapter_draft_except_def finalize_except_def
  by (simp_all only: simp_thms if_True) (blast intro: sublist_appendI)+

text \<open>
  Claim C6. For \<^verbatim>\<open>POST /api/novel/blueprint\<close>, \<^verbatim>\<open>/api/novel/chapter_draft\<close> and
  \<^verbatim>\<open>/api/novel/finalize_chapter\<close>: when the library function the route delegates to
  raises \<open>FileNotFoundError\<close>, the response has status 400 and the JSON error shape,
  and its message contains the text of the exception.
\<close>

theorem prerequisite_failure_is_400:
  assumes "exn_class_of e = FileNotFoundError"
  shows "(calls (generate_blueprint_api env request_json w) = [Call name kw (Inl e)] \<longrightarrow>
            error_reply 400 (exn_str e) (generate_blueprint_api env request_json w)) \<and>
         (calls (generate_chapter_draft_api env request_json w) = [Call name kw (Inl e)] \<longrightarrow>
            error_reply 400 (exn_str e) (generate_chapter_draft_api env request_json w)) \<and>
         (calls (finalize_chapter_api env request_json w) = [Call name kw (Inl e)] \<longrightarrow>
            error_reply 400 (exn_str e) (finalize_chapter_api env request_json w))"
proof (intro conjI impI)
  assume c: "calls (generate_blueprint_api env request_json w) = [Call name kw (Inl e)]"
  then obtain res filepath where
    1: "generate_blueprint_api env request_json w =
          delegated ''Chapter_blueprint_generate'' kw res (blueprint_result filepath)"
    by (rule blueprint_reaches_call)
  with c have "fst res = Inl e" by simp
  with 1 not_found_reply(1) [OF assms]
  show "error_reply 400 (exn_str e) (generate_blueprint_api env request_json w)"
    by (auto simp: blueprint_result_def intro: error_replyI)
next
  assume c: "calls (generate_chapter_draft_api env request_json w) = [Call name kw (Inl e)]"
  then obtain res filepath n where
    1: "generate_chapter_draft_api env request_json w =
          delegated ''generate_chapter_draft'' kw res (chapter_draft_result filepath n)"
    by (rule chapter_draft_reaches_call)
  with c have "fst res = Inl e" by simp
  with 1 not_found_reply(2) [OF assms]
  show "error_reply 400 (exn_str e) (generate_chapter_draft_api env request_json w)"
    by (auto simp: chapter_draft_result_def intro: error_replyI)
next
  assume c: "calls (finalize_chapter_api env request_json w) = [Call name kw (Inl e)]"
  then obtain res filepath n where
    1: "finalize_chapter_api env request_json w =
          delegated ''finalize_chapter'' kw res (finalize_result filepath n)"
    by (rule finalize_reaches_call)
  with c have "fst res = Inl e" by simp
  with 1 not_found_reply(3) [OF assms]
  show "error_reply 400 (exn_str e) (finalize_chapter_api env request_json w)"
    by (auto simp: finalize_result_def intro: error_replyI)
qed

theorem prerequisite_failure_is_400_witness:
  "calls (generate_blueprint_api failing_env test_request test_world) =
     [Call ''Chapter_blueprint_generate'' test_blueprint_kwargs
        (Inl (Exn FileNotFoundError ''Novel_architecture.txt''))] \<and>
   error_reply 400 ''Novel_architecture.txt''
     (generate_blueprint_api failing_env test_request test_world) \<and>
   calls (generate_chapter_draft_api failing_env test_chapter_request test_world) =
     [Call ''generate_chapter_draft'' test_draft_kwargs
        (Inl (Exn FileNotFoundError ''Novel_directory.txt''))] \<and>
   error_reply 400 ''Novel_directory.txt''
     (generate_chapter_draft_api failing_env test_chapter_request test_world) \<and>
   calls (finalize_chapter_api failing_env test_chapter_request test_world) =
     [Call ''finalize_chapter'' test_finalize_kwargs
        (Inl (Exn FileNotFoundError ''chapter_1.txt''))] \<and>
   error_reply 400 ''chapter_1.txt''
     (finalize_chapter_api failing_env test_chapter_request test_world)"
proof -
  have b: "calls (generate_blueprint_api failing_env test_request test_world) =
     [Call ''Chapter_blueprint_generate'' test_blueprint_kwargs
        (Inl (Exn FileNotFoundError ''Novel_architecture.txt''))]"
    by code_simp
  have d: "calls (generate_chapter_draft_api failing_env test_chapter_request test_world) =
     [Call ''generate_chapter_draft'' test_draft_kwargs
        (Inl (Exn FileNotFoundError ''Novel_directory.txt''))]"
    by code_simp
  have f: "calls (finalize_chapter_api failing_env test_chapter_request test_world) =
     [Call ''finalize_chapter'' test_finalize_kwargs
        (Inl (Exn FileNotFoundError ''chapter_1.txt''))]"
    by code_simp
  have "error_reply 400 ''Novel_architecture.txt''
          (generate_blueprint_api failing_env test_request test_world)"
    using b prerequisite_failure_is_400
            [of "Exn FileNotFoundError ''Novel_architecture.txt''" failing_env test_request
                test_world "''Chapter_blueprint_generate''" test_blueprint_kwargs]
    by simp
  moreover
  have "error_reply 400 ''Novel_directory.txt''
          (generate_chapter_draft_api failing_env test_chapter_request test_world)"
    using d prerequisite_failure_is_400
            [of "Exn FileNotFoundError ''Novel_directory.txt''" failing_env test_chapter_request
                test_world "''generate_chapter_draft''" test_draft_kwargs]
    by simp
  moreover
  have "error_reply 400 ''chapter_1.txt''
          (finalize_chapter_api failing_env test_chapter_request test_world)"
    using f prerequisite_failure_is_400
            [of "Exn FileNotFoundError ''chapter_1.txt''" failing_env test_chapter_request
                test_world "''finalize_chapter''" test_finalize_kwargs]
    by simp
  ultimately show ?thesis using b d f by blast
qed

subsection \<open>The consistency check\<close>

lemma eval_kwargs_Cons_Inr:
  "eval_kwargs ((k, Inr v) # rest) = Inr kw \<longleftrightarrow> (\<exists>kw'. eval_kwargs rest = Inr kw' \<and> kw = (k, v) # kw')"
  by (auto split: sum.splits)

lemma eval_kwargs_keys: "eval_kwargs xs = Inr kw \<Longrightarrow> map fst kw = map fst xs"
  by (induction xs arbitrary: kw) (auto split: sum.splits)

lemma eval_kwargs_append:
  "eval_kwargs (xs @ ys) = Inr kw \<Longrightarrow>
     \<exists>kx ky. eval_kwargs xs = Inr kx \<and> eval_kwargs ys = Inr ky \<and> kw = kx @ ky"
  by (induction xs arbitrary: kw) (auto split: sum.splits)

lemma read_project_files_Inr:
  assumes "read_project_files env filepath n w = Inr (a, b, c, d, p)"
  shows "read_file env (posix_join filepath ''Novel_architecture.txt'') w = Inr a \<and> a \<noteq> [] \<and>
         read_file env (posix_join filepath ''character_state.txt'') w = Inr b \<and> b \<noteq> [] \<and>
         read_file env (posix_join filepath ''global_summary.txt'') w = Inr c \<and> c \<noteq> [] \<and>
         read_file env (posix_join (posix_join filepath ''chapters'')
                          (''chapter_'' @ string_of_int n @ ''.txt'')) w = Inr d \<and> d \<noteq> [] \<and>
         read_file env (posix_join filepath ''plot_arcs.txt'') w = Inr p"
  using assms
  by (simp add: read_project_files_def split: sum.splits if_splits)

lemma consistency_reaches_call:
  assumes c: "calls (check_consistency_api env request_json w) = [Call name kw r]"
  obtains data filepath chapter_number llm_config interface_format a b c d p where
    "request_json = JObj data" "project_dir env data = Inr filepath"
    "py_int env (dict_get data ''chapter_number'' JNull) = Inr chapter_number"
    "read_project_files env filepath chapter_number w = Inr (a, b, c, d, p)"
    "eval_kwargs
       ([(''novel_setting'', Inr (JStr a)),
         (''character_state'', Inr (JStr b)),
         (''global_summary'', Inr (JStr c)),
         (''chapter_text'', Inr (JStr d))] @
        llm_args_chapter env llm_config interface_format @
        [(''plot_arcs'', Inr (JStr p))]) = Inr kw"
    "check_consistency_api env request_json w =
       delegated ''check_consistency'' kw (check_consistency env kw w) consistency_result"
proof -
  note d = check_consistency_api_def project_dir_def
  from c have 0: "truthy request_json"
    by (auto simp add: d split: if_splits)
  from c 0 obtain data where 1: "request_json = JObj data"
    by (cases request_json) (simp_all add: d)
  from c 0 1 obtain filepath where 2: "project_dir env data = Inr filepath"
    by (cases "project_dir env data") (simp_all add: d)
  from c 0 1 2 have 3: "dict_get data ''chapter_number'' JNull \<noteq> JNull"
    by (auto simp add: d split: if_splits)
  from c 0 1 2 3 obtain chapter_number where
    4: "py_int env (dict_get data ''chapter_number'' JNull) = Inr chapter_number"
    by (cases "py_int env (dict_get data ''chapter_number'' JNull)")
       (simp_all add: d split: if_splits)
  from c 0 1 2 3 4 obtain llm_config interface_format error_msg where
    5: "get_llm_config env w = Inr (llm_config, interface_format, error_msg)"
    by (cases "get_llm_config env w") (auto simp add: d)
  from c 0 1 2 3 4 5 have 6: "\<not> truthy error_msg"
    by (auto simp add: d split: if_splits)
  from c 0 1 2 3 4 5 6 obtain a b c' d' p where
    7: "read_project_files env filepath chapter_number w = Inr (a, b, c', d', p)"
    by (cases "read_project_files env filepath chapter_number w")
       (auto simp add: d split: if_splits)
  from c 0 1 2 3 4 5 6 7 have
    8: "eval_kwargs
       ([(''novel_setting'', Inr (JStr a)),
         (''character_state'', Inr (JStr b)),
         (''global_summary'', Inr (JStr c')),
         (''chapter_text'', Inr (JStr d'))] @
        llm_args_chapter env llm_config interface_format @
        [(''plot_arcs'', Inr (JStr p))]) = Inr kw"
    by (simp add: d split: sum.splits)
  from c 0 1 2 3 4 5 6 7 8 have
    "check_consistency_api env request_json w =
       delegated ''check_consistency'' kw (check_consistency env kw w) consistency_result"
    by (simp add: d)
  with 1 2 4 7 8 that show thesis by blast
qed

lemma consistency_kwargs_texts:
  assumes "eval_kwargs
       ([(''novel_setting'', Inr (JStr a)),
         (''character_state'', Inr (JStr b)),
         (''global_summary'', Inr (JStr c)),
         (''chapter_text'', Inr (JStr d))] @
        llm_args_chapter env llm_config interface_format @
        [(''plot_arcs'', Inr (JStr p))]) = Inr kw"
  shows "map_of kw ''novel_setting'' = Some (JStr a) \<and>
         map_of kw ''character_state'' = Some (JStr b) \<and>
         map_of kw ''global_summary'' = Some (JStr c) \<and>
         map_of kw ''chapter_text'' = Some (JStr d) \<and>
         map_of kw ''plot_arcs'' = Some (JStr p)"
proof -
  from assms obtain kx kr where
    x: "eval_kwargs [(''novel_setting'', Inr (JStr a)), (''character_state'', Inr (JStr b)),
                     (''global_summary'', Inr (JStr c)), (''chapter_text'', Inr (JStr d))] = Inr kx"
    and r: "eval_kwargs (llm_args_chapter env llm_config interface_format @
                         [(''plot_arcs'', Inr (JStr p))]) = Inr kr"
    and k: "kw = kx @ kr"
    using eval_kwargs_append by blast
  from r obtain k1 k2 where
    l: "eval_kwargs (llm_args_chapter env llm_config interface_format) = Inr k1"
    and p: "eval_kwargs [(''plot_arcs'', Inr (JStr p))] = Inr k2"
    and kr: "kr = k1 @ k2"
    using eval_kwargs_append by blast
  from x p k kr have
    1: "kw = [(''novel_setting'', JStr a), (''character_state'', JStr b),
              (''global_summary'', JStr c), (''chapter_text'', JStr d)] @ k1 @
             [(''plot_arcs'', JStr p)]"
    by auto
  from eval_kwargs_keys [OF l] have
    "map fst k1 = [''api_key'', ''base_url'', ''model_name'', ''temperature'',
                   ''interface_format'', ''max_tokens'', ''timeout'']"
    by (simp add: llm_args_chapter_def)
  then have "''plot_arcs'' \<notin> set (map fst k1)"
    by simp
  then have "map_of k1 ''plot_arcs'' = None"
    by (simp add: map_of_eq_None_iff)
  with 1 show ?thesis
    by (simp add: map_add_def)
qed

text \<open>
  Claim C1, as amended. On every request to \<^verbatim>\<open>POST /api/novel/check_consistency\<close> that
  reaches the call to \<^verbatim>\<open>check_consistency\<close>, the texts passed as \<open>novel_setting\<close>,
  \<open>character_state\<close>, \<open>global_summary\<close> and \<open>chapter_text\<close> are what \<^verbatim>\<open>read_file\<close>
  returned for the four required files, and each is a non-empty string. The text passed
  as \<open>plot_arcs\<close> is what \<^verbatim>\<open>read_file\<close> returned for \<^verbatim>\<open>plot_arcs.txt\<close>, empty or not.
\<close>

theorem consistency_texts_nonempty:
  assumes "calls (check_consistency_api env request_json w) = [Call name kw r]"
  shows "\<exists>data filepath n a b c d p.
           request_json = JObj data \<and> project_dir env data = Inr filepath \<and>
           py_int env (dict_get data ''chapter_number'' JNull) = Inr n \<and>
           name = ''check_consistency'' \<and>
           read_file env (posix_join filepath ''Novel_architecture.txt'') w = Inr a \<and>
           map_of kw ''novel_setting'' = Some (JStr a) \<and> a \<noteq> [] \<and>
           read_file env (posix_join filepath ''character_state.txt'') w = Inr b \<and>
           map_of kw ''character_state'' = Some (JStr b) \<and> b \<noteq> [] \<and>
           read_file env (posix_join filepath ''global_summary.txt'') w = Inr c \<and>
           map_of kw ''global_summary'' = Some (JStr c) \<and> c \<noteq> [] \<and>
           read_file env (posix_join (posix_join filepath ''chapters'')
                            (''chapter_'' @ string_of_int n @ ''.txt'')) w = Inr d \<and>
           map_of kw ''chapter_text'' = Some (JStr d) \<and> d \<noteq> [] \<and>
           read_file env (posix_join filepath ''plot_arcs.txt'') w = Inr p \<and>
           map_of kw ''plot_arcs'' = Some (JStr p)"
proof -
  from assms obtain data filepath n llm_config interface_format a b c d p where
    1: "request_json = JObj data" "project_dir env data = Inr filepath"
       "py_int env (dict_get data ''chapter_number'' JNull) = Inr n" and
    2: "read_project_files env filepath n w = Inr (a, b, c, d, p)" and
    3: "eval_kwargs
       ([(''novel_setting'', Inr (JStr a)),
         (''character_state'', Inr (JStr b)),
         (''global_summary'', Inr (JStr c)),
         (''chapter_text'', Inr (JStr d))] @
        llm_args_chapter env llm_config interface_format @
        [(''plot_arcs'', Inr (JStr p))]) = Inr kw" and
    4: "check_consistency_api env request_json w =
       delegated ''check_consistency'' kw (check_consistency env kw w) consistency_result"
    by (rule consistency_reaches_call)
  from assms 4 have 5: "name = ''check_consistency''"
    by simp
  from 1 5 read_project_files_Inr [OF 2] consistency_kwargs_texts [OF 3]
  show ?thesis
    by blast
qed

theorem consistency_texts_nonempty_witness:
  "calls (check_consistency_api test_env test_consistency_request test_world) =
     [Call ''check_consistency'' test_consistency_kwargs (Inr (JStr ''No conflict.''))] \<and>
   (\<exists>a. map_of test_consistency_kwargs ''novel_setting'' = Some (JStr a) \<and> a \<noteq> []) \<and>
   (\<exists>b. map_of test_consistency_kwargs ''character_state'' = Some (JStr b) \<and> b \<noteq> []) \<and>
   (\<exists>c. map_of test_consistency_kwargs ''global_summary'' = Some (JStr c) \<and> c \<noteq> []) \<and>
   (\<exists>d. map_of test_consistency_kwargs ''chapter_text'' = Some (JStr d) \<and> d \<noteq> [])"
proof -
  have c: "calls (check_consistency_api test_env test_consistency_request test_world) =
     [Call ''check_consistency'' test_consistency_kwargs (Inr (JStr ''No conflict.''))]"
    by code_simp
  from consistency_texts_nonempty [OF c] show ?thesis
    using c by blast
qed

text \<open>
  The claim as first stated also names \<open>plot_arcs\<close>. The handler reads that file last and
  does not check it: in the project of the fixture, which has no \<^verbatim>\<open>plot_arcs.txt\<close>, the
  checker is called with the empty string.
\<close>

theorem consistency_plot_arcs_counterexample:
  "calls (check_consistency_api test_env test_consistency_request test_world) =
     [Call ''check_consistency'' test_consistency_kwargs (Inr (JStr ''No conflict.''))] \<and>
   map_of test_consistency_kwargs ''plot_arcs'' = Some (JStr [])"
  by code_simp





subsection \<open>The vector store\<close>

lemma sublist_quoted: "sublist t (p @ quoted t @ s)"
  unfolding quoted_def by (metis append.assoc sublist_appendI)

text \<open>
  Claim C8, as amended. A request to \<^verbatim>\<open>POST /api/vectorstore/clear\<close> whose body is a
  non-empty JSON object with a string as project name where one is given: when the project
  directory does not exist the response is the 404 JSON error, and \<^verbatim>\<open>clear_vector_store\<close>
  is not called; otherwise \<^verbatim>\<open>clear_vector_store(filepath)\<close> is called, the response has
  status 200 exactly when the call returns a true value without raising, and status 500
  otherwise.
\<close>

theorem clear_vectorstore_status:
  assumes "data \<noteq> []" "project_dir env data = Inr filepath"
  shows "(\<not> os_path_isdir filepath w \<longrightarrow>
            error_reply 404 filepath (clear_vectorstore_api env (JObj data) w) \<and>
            calls (clear_vectorstore_api env (JObj data) w) = []) \<and>
         (os_path_isdir filepath w \<longrightarrow>
            (\<exists>resp. reply (clear_vectorstore_api env (JObj data) w) = Inr resp \<and>
               (status_code resp = 200 \<longleftrightarrow>
                  (\<exists>v. fst (clear_vector_store env filepath w) = Inr v \<and> truthy v)) \<and>
               (status_code resp = 200 \<or> status_code resp = 500)) \<and>
            calls (clear_vectorstore_api env (JObj data) w) =
              [Call ''clear_vector_store'' [(''filepath'', JStr filepath)]
                 (fst (clear_vector_store env filepath w))])"
proof (intro conjI impI)
  note h = clear_vectorstore_api_def project_dir_def [symmetric] assms
  assume n: "\<not> os_path_isdir filepath w"
  then have "clear_vectorstore_api env (JObj data) w =
      responded (error_response 404 (''Project directory '' @ quoted filepath @ '' not found.'')) w"
    by (simp add: h)
  then show "error_reply 404 filepath (clear_vectorstore_api env (JObj data) w)"
    "calls (clear_vectorstore_api env (JObj data) w) = []"
    by (simp_all only: reply_responded calls_responded error_replyI [OF _ sublist_quoted])
next
  note h = clear_vectorstore_api_def project_dir_def [symmetric] assms
  assume y: "os_path_isdir filepath w"
  then have d: "clear_vectorstore_api env (JObj data) w =
      delegated ''clear_vector_store'' [(''filepath'', JStr filepath)]
        (clear_vector_store env filepath w)
        (clear_result (py_str env (dict_get data ''project_name'' (JStr ''default_project''))))"
    by (simp add: h)
  then show "calls (clear_vectorstore_api env (JObj data) w) =
              [Call ''clear_vector_store'' [(''filepath'', JStr filepath)]
                 (fst (clear_vector_store env filepath w))]"
    by simp
  show "\<exists>resp. reply (clear_vectorstore_api env (JObj data) w) = Inr resp \<and>
               (status_code resp = 200 \<longleftrightarrow>
                  (\<exists>v. fst (clear_vector_store env filepath w) = Inr v \<and> truthy v)) \<and>
               (status_code resp = 200 \<or> status_code resp = 500)"
    by (cases "fst (clear_vector_store env filepath w)")
       (simp_all add: d clear_result_def error_response_def)
qed

theorem clear_vectorstore_status_witness:
  "project_dir test_env [(''project_name'', JStr ''default_project_test'')] =
     Inr ''test_novel_projects/default_project_test'' \<and>
   os_path_isdir ''test_novel_projects/default_project_test'' test_world \<and>
   calls (clear_vectorstore_api test_env test_clear_request test_world) =
     [Call ''clear_vector_store'' [(''filepath'', JStr ''test_novel_projects/default_project_test'')]
        (Inr (JBool True))] \<and>
   (\<exists>resp. reply (clear_vectorstore_api test_env test_clear_request test_world) = Inr resp \<and>
      status_code resp = 200) \<and>
   project_dir test_env [(''project_name'', JStr ''elsewhere'')] =
     Inr ''test_novel_projects/elsewhere'' \<and>
   error_reply 404 ''test_novel_projects/elsewhere''
     (clear_vectorstore_api test_env (JObj [(''project_name'', JStr ''elsewhere'')]) test_world)"
proof -
  have p: "project_dir test_env [(''project_name'', JStr ''default_project_test'')] =
     Inr ''test_novel_projects/default_project_test''"
    by code_simp
  have i: "os_path_isdir ''test_novel_projects/default_project_test'' test_world"
    by code_simp
  have v: "fst (clear_vector_store test_env ''test_novel_projects/default_project_test'' test_world)
             = Inr (JBool True)"
    by code_simp
  have q: "project_dir test_env [(''project_name'', JStr ''elsewhere'')] =
     Inr ''test_novel_projects/elsewhere''"
    by code_simp
  have j: "\<not> os_path_isdir ''test_novel_projects/elsewhere'' test_world"
    by code_simp
  from clear_vectorstore_status [OF _ p, of test_world] i v
  have "calls (clear_vectorstore_api test_env test_clear_request test_world) =
     [Call ''clear_vector_store'' [(''filepath'', JStr ''test_novel_projects/default_project_test'')]
        (Inr (JBool True))]"
    "\<exists>resp. reply (clear_vectorstore_api test_env test_clear_request test_world) = Inr resp \<and>
      status_code resp = 200"
    by (auto simp: test_clear_request_def)
  moreover from clear_vectorstore_status [OF _ q, of test_world] j
  have "error_reply 404 ''test_novel_projects/elsewhere''
     (clear_vectorstore_api test_env (JObj [(''project_name'', JStr ''elsewhere'')]) test_world)"
    by simp
  ultimately show ?thesis
    using p i q by blast
qed

text \<open>
  The claim as first stated covers every JSON object. The handler rejects the empty object
  \<^verbatim>\<open>{}\<close> with status 400 before it looks for the directory (\<^verbatim>\<open>if not data\<close>), here for
  the default project, whose directory does not exist.
\<close>

theorem clear_vectorstore_empty_body_counterexample:
  "\<not> os_path_isdir ''test_novel_projects/default_project'' test_world \<and>
   project_dir test_env [] = Inr ''test_novel_projects/default_project'' \<and>
   reply (clear_vectorstore_api test_env (JObj []) test_world) =
     Inr (error_response 400 ''Request body must be JSON.'') \<and>
   calls (clear_vectorstore_api test_env (JObj []) test_world) = []"
  by code_simp

subsection \<open>The configuration document\<close>

text \<open>
  Claim C2. With the configuration store of the spec behind \<^verbatim>\<open>save_config\<close> and
  \<^verbatim>\<open>load_config\<close>: when \<^verbatim>\<open>POST /api/config\<close> with the body \<open>d\<close> returns status 200, the
  body is a JSON object, and \<^verbatim>\<open>GET /api/config\<close> in the world the request left returns
  status 200 and exactly \<open>d\<close>.
\<close>

theorem config_round_trip:
  assumes "reply (save_config_api (with_config_manager env) d w) = Inr resp"
    and "status_code resp = 200"
  shows "(\<exists>kvs. d = JObj kvs) \<and>
         reply (get_config_api (with_config_manager env)
                  (after (save_config_api (with_config_manager env) d w))) =
           Inr \<lparr>status_code = 200, json_body = d\<rparr>"
proof -
  from assms obtain kvs where 1: "d = JObj kvs"
    by (cases d) (auto simp: save_config_api_def error_response_def)
  from assms 1 have 2: "get_config_file_path (with_config_manager env) \<notin> read_only w"
    by (auto simp: save_config_api_def with_config_manager_def config_manager_save_config_def
          error_response_def split: if_splits)
  from 1 2 have "after (save_config_api (with_config_manager env) d w) =
      w\<lparr>documents := (documents w)(get_config_file_path (with_config_manager env) \<mapsto> d)\<rparr>"
    by (simp add: save_config_api_def with_config_manager_def config_manager_save_config_def)
  then have "reply (get_config_api (with_config_manager env)
                  (after (save_config_api (with_config_manager env) d w))) =
           Inr \<lparr>status_code = 200, json_body = d\<rparr>"
    by (simp add: get_config_api_def with_config_manager_def config_manager_load_config_def)
  with 1 show ?thesis by blast
qed

theorem config_round_trip_witness:
  "reply (save_config_api (with_config_manager test_env) test_config no_config_world) =
     Inr \<lparr>status_code = 200,
          json_body = JObj [(''status'', JStr ''success''),
                            (''message'', JStr ''Configuration saved.'')]\<rparr> \<and>
   reply (get_config_api (with_config_manager test_env)
            (after (save_config_api (with_config_manager test_env) test_config no_config_world))) =
     Inr \<lparr>status_code = 200, json_body = test_config\<rparr>"
proof -
  have s: "reply (save_config_api (with_config_manager test_env) test_config no_config_world) =
     Inr \<lparr>status_code = 200,
          json_body = JObj [(''status'', JStr ''success''),
                            (''message'', JStr ''Configuration saved.'')]\<rparr>"
    by code_simp
  from config_round_trip [OF s] s show ?thesis
    by simp
qed

subsection \<open>The steps before the body is validated\<close>

lemma py_int_not_literal:
  "int_literal s = None \<Longrightarrow> py_int env (JStr s) = Inl (Exn ValueError (interp_text env ''int'' [JStr s]))"
  by (simp add: py_int_def raise_def)

lemma test_makedirs_returns:
  "fst (os_makedirs test_env ''test_novel_projects/default_project'' test_world) = None"
  by code_simp

lemma test_dir_created:
  assumes "project_dir test_env data = Inr ''test_novel_projects/default_project''"
  shows "dir_created test_env data test_world test_after_makedirs"
  using assms test_makedirs_returns
  by (simp add: dir_created_def test_after_makedirs_def prod_eq_iff)

lemma test_project_exists:
  "os_makedirs test_env ''test_novel_projects/default_project_test'' test_world = (None, test_world)"
  by (simp add: os_makedirs_def test_world_def)

text \<open>
  Claim C10. In \<^verbatim>\<open>generate_architecture_api\<close> the conversions \<^verbatim>\<open>int(data.get("num_chapters", 10))\<close>
  and \<^verbatim>\<open>int(data.get("word_number", 3000))\<close> stand outside any \<^verbatim>\<open>try\<close>. On a request that
  passes the directory and configuration steps and in which \<open>num_chapters\<close> is a string
  that is no integer literal, the handler raises an unhandled \<open>ValueError\<close>, where
  \<^verbatim>\<open>POST /api/novel/blueprint\<close> answers the same body with the 400 JSON error; the same
  holds for such a \<open>word_number\<close> once \<open>num_chapters\<close> has been converted.
\<close>

theorem architecture_int_conversion_unhandled:
  assumes "dir_created env data w w1" and "llm_config_ok env w1" and "int_literal s = None"
  shows "(map_of data ''num_chapters'' = Some (JStr s) \<longrightarrow>
            (\<exists>t. reply (generate_architecture_api env (JObj data) w) = Inl (Exn ValueError t)) \<and>
            reply (generate_blueprint_api env (JObj data) w) =
              Inr (error_response 400 '''num_chapters' must be an integer.'')) \<and>
         (map_of data ''word_number'' = Some (JStr s) \<longrightarrow>
            (\<exists>n. py_int env (dict_get data ''num_chapters'' (JInt 10)) = Inr n) \<longrightarrow>
            (\<exists>t. reply (generate_architecture_api env (JObj data) w) = Inl (Exn ValueError t)))"
proof -
  from assms(1) obtain filepath where
    p: "project_dir env data = Inr filepath" "os_makedirs env filepath w = (None, w1)"
    by (rule dir_createdE)
  from assms(2) obtain llm_config interface_format error_msg where
    g: "get_llm_config env w1 = Inr (llm_config, interface_format, error_msg)" "\<not> truthy error_msg"
    by (rule llm_config_okE)
  note i = py_int_not_literal [OF assms(3), of env]
  note h = project_dir_def [symmetric] p g i
  show ?thesis
  proof (intro conjI impI)
    assume m: "map_of data ''num_chapters'' = Some (JStr s)"
    then have d: "data \<noteq> []" "dict_get data ''num_chapters'' (JInt 10) = JStr s"
      "dict_get data ''num_chapters'' JNull = JStr s"
      by (auto simp: dict_get_def)
    show "\<exists>t. reply (generate_architecture_api env (JObj data) w) = Inl (Exn ValueError t)"
      by (simp add: generate_architecture_api_def h d)
    show "reply (generate_blueprint_api env (JObj data) w) =
              Inr (error_response 400 '''num_chapters' must be an integer.'')"
      by (simp add: generate_blueprint_api_def h d)
  next
    assume m: "map_of data ''word_number'' = Some (JStr s)"
      and "\<exists>n. py_int env (dict_get data ''num_chapters'' (JInt 10)) = Inr n"
    then obtain n where n: "py_int env (dict_get data ''num_chapters'' (JInt 10)) = Inr n"
      by blast
    from m have d: "data \<noteq> []" "dict_get data ''word_number'' (JInt 3000) = JStr s"
      by (auto simp: dict_get_def)
    show "\<exists>t. reply (generate_architecture_api env (JObj data) w) = Inl (Exn ValueError t)"
      by (simp add: generate_architecture_api_def h d n)
  qed
qed

theorem architecture_int_conversion_unhandled_witness:
  "dir_created test_env [(''num_chapters'', JStr ''abc'')] test_world test_after_makedirs \<and>
   llm_config_ok test_env test_after_makedirs \<and>
   int_literal ''abc'' = None \<and>
   (\<exists>t. reply (generate_architecture_api test_env (JObj [(''num_chapters'', JStr ''abc'')]) test_world) =
          Inl (Exn ValueError t)) \<and>
   reply (generate_blueprint_api test_env (JObj [(''num_chapters'', JStr ''abc'')]) test_world) =
     Inr (error_response 400 '''num_chapters' must be an integer.'')"
proof -
  have d: "dir_created test_env [(''num_chapters'', JStr ''abc'')] test_world test_after_makedirs"
    by (rule test_dir_created) code_simp
  have c: "llm_config_ok test_env test_after_makedirs"
    by code_simp
  have l: "int_literal ''abc'' = None"
    by code_simp
  from architecture_int_conversion_unhandled [OF d c l] d c l show ?thesis
    by simp
qed

subsection \<open>The project directory\<close>

lemma os_makedirs_returns:
  "os_makedirs env p w = (None, w1) \<Longrightarrow> p \<in> dirs w1"
  by (auto simp: os_makedirs_def split: if_splits option.splits)

lemma architecture_after:
  assumes "project_dir env data = Inr filepath" "os_makedirs env filepath w = (None, w1)"
  shows "after (generate_architecture_api env (JObj data) w) = w1 \<or>
         calls (generate_architecture_api env (JObj data) w) \<noteq> [] \<and>
         (\<exists>kw. after (generate_architecture_api env (JObj data) w) =
                 snd (Novel_architecture_generate env kw w1))"
  using assms
  by (simp add: generate_architecture_api_def project_dir_def [symmetric]
        split: sum.splits prod.splits if_splits) blast

lemma blueprint_after:
  assumes "project_dir env data = Inr filepath" "os_makedirs env filepath w = (None, w1)"
  shows "after (generate_blueprint_api env (JObj data) w) = w1 \<or>
         calls (generate_blueprint_api env (JObj data) w) \<noteq> [] \<and>
         (\<exists>kw. after (generate_blueprint_api env (JObj data) w) =
                 snd (Chapter_blueprint_generate env kw w1))"
  using assms
  by (simp add: generate_blueprint_api_def project_dir_def [symmetric]
        split: sum.splits prod.splits if_splits) blast

lemma chapter_draft_after:
  assumes "project_dir env data = Inr filepath" "os_makedirs env filepath w = (None, w1)"
  shows "after (generate_chapter_draft_api env (JObj data) w) = w1 \<or>
         calls (generate_chapter_draft_api env (JObj data) w) \<noteq> [] \<and>
         (\<exists>kw. after (generate_chapter_draft_api env (JObj data) w) =
                 snd (generate_chapter_draft env kw w1))"
  using assms
  by (simp add: generate_chapter_draft_api_def project_dir_def [symmetric]
        split: sum.splits prod.splits if_splits) blast

text \<open>
  Claim C9, as amended. The architecture, blueprint and chapter draft routes call
  \<^verbatim>\<open>os.makedirs\<close> on the project directory before they look at the configuration or at
  the rest of the body. For every request whose body is an object with a string as project
  name (or none), when that call returns, the directory exists after the response,
  whatever the response is (the errors 400 and 500 of the later steps and an escaping
  exception included), as long as the handler has called no library function, or the
  library function that it called leaves the directory in place.
\<close>

theorem project_directory_exists_after:
  assumes "project_dir env data = Inr filepath"
    and "os_makedirs env filepath w = (None, w1)"
  shows "(calls (generate_architecture_api env (JObj data) w) = [] \<or>
          keeps_dir (Novel_architecture_generate env) filepath \<longrightarrow>
            filepath \<in> dirs (after (generate_architecture_api env (JObj data) w))) \<and>
         (calls (generate_blueprint_api env (JObj data) w) = [] \<or>
          keeps_dir (Chapter_blueprint_generate env) filepath \<longrightarrow>
            filepath \<in> dirs (after (generate_blueprint_api env (JObj data) w))) \<and>
         (calls (generate_chapter_draft_api env (JObj data) w) = [] \<or>
          keeps_dir (generate_chapter_draft env) filepath \<longrightarrow>
            filepath \<in> dirs (after (generate_chapter_draft_api env (JObj data) w)))"
proof -
  from assms(2) have d: "filepath \<in> dirs w1"
    by (rule os_makedirs_returns)
  have k: "filepath \<in> dirs (snd (generate kw w1))" if "keeps_dir generate filepath"
    for generate kw
    using that d by (simp add: keeps_dir_def)
  from architecture_after [OF assms] d k [of "Novel_architecture_generate env"]
  have "calls (generate_architecture_api env (JObj data) w) = [] \<or>
          keeps_dir (Novel_architecture_generate env) filepath \<longrightarrow>
            filepath \<in> dirs (after (generate_architecture_api env (JObj data) w))"
    by auto
  moreover
  from blueprint_after [OF assms] d k [of "Chapter_blueprint_generate env"]
  have "calls (generate_blueprint_api env (JObj data) w) = [] \<or>
          keeps_dir (Chapter_blueprint_generate env) filepath \<longrightarrow>
            filepath \<in> dirs (after (generate_blueprint_api env (JObj data) w))"
    by auto
  moreover
  from chapter_draft_after [OF assms] d k [of "generate_chapter_draft env"]
  have "calls (generate_chapter_draft_api env (JObj data) w) = [] \<or>
          keeps_dir (generate_chapter_draft env) filepath \<longrightarrow>
            filepath \<in> dirs (after (generate_chapter_draft_api env (JObj data) w))"
    by auto
  ultimately show ?thesis by blast
qed

theorem project_directory_exists_after_witness:
  "project_dir test_env [(''project_name'', JStr ''demo'')] = Inr ''test_novel_projects/demo'' \<and>
   ''test_novel_projects/demo'' \<notin> dirs no_config_world \<and>
   fst (os_makedirs test_env ''test_novel_projects/demo'' no_config_world) = None \<and>
   reply (generate_architecture_api test_env (JObj [(''project_name'', JStr ''demo'')]) no_config_world) =
     Inr (error_response 500 ''LLM Config Error: Config file not found or empty.'') \<and>
   calls (generate_architecture_api test_env (JObj [(''project_name'', JStr ''demo'')]) no_config_world) = [] \<and>
   ''test_novel_projects/demo'' \<in>
     dirs (after (generate_architecture_api test_env (JObj [(''project_name'', JStr ''demo'')])
                    no_config_world)) \<and>
   ''test_novel_projects/demo'' \<in>
     dirs (after (generate_blueprint_api test_env (JObj [(''project_name'', JStr ''demo'')])
                    no_config_world)) \<and>
   ''test_novel_projects/demo'' \<in>
     dirs (after (generate_chapter_draft_api test_env (JObj [(''project_name'', JStr ''demo'')])
                    no_config_world))"
proof -
  have p: "project_dir test_env [(''project_name'', JStr ''demo'')] = Inr ''test_novel_projects/demo''"
    by code_simp
  have n: "''test_novel_projects/demo'' \<notin> dirs no_config_world"
    by code_simp
  have f: "fst (os_makedirs test_env ''test_novel_projects/demo'' no_config_world) = None"
    by code_simp
  then have m: "os_makedirs test_env ''test_novel_projects/demo'' no_config_world =
      (None, snd (os_makedirs test_env ''test_novel_projects/demo'' no_config_world))"
    by (simp add: prod_eq_iff)
  have r: "reply (generate_architecture_api test_env (JObj [(''project_name'', JStr ''demo'')])
             no_config_world) =
     Inr (error_response 500 ''LLM Config Error: Config file not found or empty.'')"
    by code_simp
  have c: "calls (generate_architecture_api test_env (JObj [(''project_name'', JStr ''demo'')])
             no_config_world) = []"
    by code_simp
  have k: "keeps_dir (Chapter_blueprint_generate test_env) ''test_novel_projects/demo''"
    "keeps_dir (generate_chapter_draft test_env) ''test_novel_projects/demo''"
    by (simp_all add: keeps_dir_def test_env_def)
  from project_directory_exists_after [OF p m] p n f r c k show ?thesis
    by blast
qed

text \<open>
  The claim as first stated has no condition on \<^verbatim>\<open>os.makedirs\<close>. When the operating
  system refuses the directory, the handler answers 500 (\<^verbatim>\<open>except OSError\<close>) and the
  directory does not exist after the response.
\<close>

theorem project_directory_refused_counterexample:
  "reply (generate_architecture_api denied_env (JObj [(''project_name'', JStr ''demo'')]) test_world) =
     Inr (error_response 500 ''Could not create project directory: Permission denied'') \<and>
   ''test_novel_projects/demo'' \<notin>
     dirs (after (generate_architecture_api denied_env (JObj [(''project_name'', JStr ''demo'')])
                    test_world))"
  by code_simp

subsection \<open>Missing fields\<close>

text \<open>
  Claim C3, as amended. A request whose body is a JSON object and that passes the steps
  the handler runs before it looks at the field is answered with status 400 and the JSON
  error shape, without any call to a library function:
  \<^item> \<^verbatim>\<open>POST /api/novel/blueprint\<close> when the body lacks \<open>num_chapters\<close>, the project
    directory was created and the LLM configuration is valid;
  \<^item> \<^verbatim>\<open>POST /api/novel/chapter_draft\<close> when the body lacks \<open>novel_number\<close> or
    \<open>word_number\<close>, the project directory was created and the LLM and embedding
    configurations are valid;
  \<^item> \<^verbatim>\<open>POST /api/novel/finalize_chapter\<close> when the body lacks \<open>novel_number\<close> or
    \<open>word_number\<close>, the project name is a string (or absent) and both configurations are
    valid;
  \<^item> \<^verbatim>\<open>POST /api/novel/check_consistency\<close> when the body lacks \<open>chapter_number\<close> and the
    project name is a string (or absent).
\<close>

theorem missing_field_is_400:
  "(dir_created env data w w1 \<and> llm_config_ok env w1 \<and> map_of data ''num_chapters'' = None \<longrightarrow>
      error_reply 400 [] (generate_blueprint_api env (JObj data) w) \<and>
      calls (generate_blueprint_api env (JObj data) w) = []) \<and>
   (dir_created env data w w1 \<and> llm_config_ok env w1 \<and> embedding_config_ok env w1 \<and>
    (map_of data ''novel_number'' = None \<or> map_of data ''word_number'' = None) \<longrightarrow>
      error_reply 400 [] (generate_chapter_draft_api env (JObj data) w) \<and>
      calls (generate_chapter_draft_api env (JObj data) w) = []) \<and>
   ((\<exists>filepath. project_dir env data = Inr filepath) \<and> llm_config_ok env w \<and>
    embedding_config_ok env w \<and>
    (map_of data ''novel_number'' = None \<or> map_of data ''word_number'' = None) \<longrightarrow>
      error_reply 400 [] (finalize_chapter_api env (JObj data) w) \<and>
      calls (finalize_chapter_api env (JObj data) w) = []) \<and>
   ((\<exists>filepath. project_dir env data = Inr filepath) \<and> map_of data ''chapter_number'' = None \<longrightarrow>
      error_reply 400 [] (check_consistency_api env (JObj data) w) \<and>
      calls (check_consistency_api env (JObj data) w) = [])"
proof (intro conjI impI; elim conjE exE)
  assume a: "dir_created env data w w1" "llm_config_ok env w1" "map_of data ''num_chapters'' = None"
  from a(1) obtain filepath where
    p: "project_dir env data = Inr filepath" "os_makedirs env filepath w = (None, w1)"
    by (rule dir_createdE)
  from a(2) obtain llm_config interface_format error_msg where
    g: "get_llm_config env w1 = Inr (llm_config, interface_format, error_msg)" "\<not> truthy error_msg"
    by (rule llm_config_okE)
  from a(3) have d: "dict_get data ''num_chapters'' JNull = JNull"
    by (simp add: dict_get_def)
  have "\<exists>msg. generate_blueprint_api env (JObj data) w = responded (error_response 400 msg) w1"
    by (auto simp add: generate_blueprint_api_def project_dir_def [symmetric] p g d)
  then show "error_reply 400 [] (generate_blueprint_api env (JObj data) w)"
    "calls (generate_blueprint_api env (JObj data) w) = []"
    by (auto intro: error_replyI)
next
  assume a: "dir_created env data w w1" "llm_config_ok env w1" "embedding_config_ok env w1"
    "map_of data ''novel_number'' = None \<or> map_of data ''word_number'' = None"
  from a(1) obtain filepath where
    p: "project_dir env data = Inr filepath" "os_makedirs env filepath w = (None, w1)"
    by (rule dir_createdE)
  from a(2) obtain llm_config interface_format error_msg where
    g: "get_llm_config env w1 = Inr (llm_config, interface_format, error_msg)" "\<not> truthy error_msg"
    by (rule llm_config_okE)
  from a(3) obtain embedding_config embedding_format embedding_msg where
    e: "get_embedding_config env w1 = Inr (embedding_config, embedding_format, embedding_msg)"
       "\<not> truthy embedding_msg"
    by (rule embedding_config_okE)
  from a(4) have d: "dict_get data ''novel_number'' JNull = JNull \<or>
      dict_get data ''word_number'' JNull = JNull"
    by (auto simp: dict_get_def)
  have "\<exists>msg. generate_chapter_draft_api env (JObj data) w = responded (error_response 400 msg) w1"
    using d by (auto simp add: generate_chapter_draft_api_def project_dir_def [symmetric] p g e)
  then show "error_reply 400 [] (generate_chapter_draft_api env (JObj data) w)"
    "calls (generate_chapter_draft_api env (JObj data) w) = []"
    by (auto intro: error_replyI)
next
  fix filepath
  assume a: "project_dir env data = Inr filepath" "llm_config_ok env w" "embedding_config_ok env w"
    "map_of data ''novel_number'' = None \<or> map_of data ''word_number'' = None"
  from a(2) obtain llm_config interface_format error_msg where
    g: "get_llm_config env w = Inr (llm_config, interface_format, error_msg)" "\<not> truthy error_msg"
    by (rule llm_config_okE)
  from a(3) obtain embedding_config embedding_format embedding_msg where
    e: "get_embedding_config env w = Inr (embedding_config, embedding_format, embedding_msg)"
       "\<not> truthy embedding_msg"
    by (rule embedding_config_okE)
  from a(4) have d: "dict_get data ''novel_number'' JNull = JNull \<or>
      dict_get data ''word_number'' JNull = JNull"
    by (auto simp: dict_get_def)
  have "\<exists>msg. finalize_chapter_api env (JObj data) w = responded (error_response 400 msg) w"
    using d by (auto simp add: finalize_chapter_api_def project_dir_def [symmetric] a(1) g e)
  then show "error_reply 400 [] (finalize_chapter_api env (JObj data) w)"
    "calls (finalize_chapter_api env (JObj data) w) = []"
    by (auto intro: error_replyI)
next
  fix filepath
  assume a: "project_dir env data = Inr filepath" "map_of data ''chapter_number'' = None"
  from a(2) have d: "dict_get data ''chapter_number'' JNull = JNull"
    by (simp add: dict_get_def)
  have "\<exists>msg. check_consistency_api env (JObj data) w = responded (error_response 400 msg) w"
    by (auto simp add: check_consistency_api_def project_dir_def [symmetric] a(1) d)
  then show "error_reply 400 [] (check_consistency_api env (JObj data) w)"
    "calls (check_consistency_api env (JObj data) w) = []"
    by (auto intro: error_replyI)
qed

theorem missing_field_is_400_witness:
  "dir_created test_env test_bare_data test_world test_world \<and>
   llm_config_ok test_env test_world \<and> embedding_config_ok test_env test_world \<and>
   map_of test_bare_data ''num_chapters'' = None \<and>
   map_of test_bare_data ''novel_number'' = None \<and>
   map_of test_bare_data ''chapter_number'' = None \<and>
   error_reply 400 [] (generate_blueprint_api test_env (JObj test_bare_data) test_world) \<and>
   error_reply 400 [] (generate_chapter_draft_api test_env (JObj test_bare_data) test_world) \<and>
   error_reply 400 [] (finalize_chapter_api test_env (JObj test_bare_data) test_world) \<and>
   error_reply 400 [] (check_consistency_api test_env (JObj test_bare_data) test_world)"
proof -
  have p: "project_dir test_env test_bare_data = Inr ''test_novel_projects/default_project_test''"
    by code_simp
  with test_project_exists have d: "dir_created test_env test_bare_data test_world test_world"
    by (simp add: dir_created_def)
  have c: "llm_config_ok test_env test_world" "embedding_config_ok test_env test_world"
    by code_simp+
  have m: "map_of test_bare_data ''num_chapters'' = None"
    "map_of test_bare_data ''novel_number'' = None"
    "map_of test_bare_data ''chapter_number'' = None"
    by code_simp+
  from missing_field_is_400 [of test_env test_bare_data test_world test_world] p d c m
  show ?thesis
    by simp
qed

text \<open>
  The claim as first stated has no condition on the configuration. The blueprint route
  checks the configuration before the body: without a configuration document, a body that
  lacks \<open>num_chapters\<close> is answered with status 500.
\<close>

theorem missing_field_counterexample:
  "map_of [(''project_name'', JStr ''default_project_test'')] ''num_chapters'' = None \<and>
   reply (generate_blueprint_api test_env (JObj [(''project_name'', JStr ''default_project_test'')])
            no_config_world) =
     Inr (error_response 500 ''LLM Config Error: Config file not found or empty.'')"
  by code_simp

subsection \<open>Missing configuration\<close>

lemma missing_keys_object:
  "missing_keys env (JObj cfg) ks = Inr (filter (key_missing cfg) ks)"
proof (induction ks)
  case Nil
  show ?case by simp
next
  case (Cons k ks)
  show ?case
  proof (cases "map_of cfg k")
    case None
    then have "k \<notin> fst ` set cfg"
      by (simp add: map_of_eq_None_iff)
    with None Cons show ?thesis
      by (simp add: py_in_def key_missing_def)
  next
    case (Some v)
    then have "k \<in> fst ` set cfg"
      by (metis map_of_eq_None_iff option.distinct(1))
    with Some Cons show ?thesis
      by (simp add: py_in_def py_getitem_def key_missing_def)
  qed
qed

lemma get_llm_config_lacking:
  assumes l: "load_config env (get_config_file_path env) w = Inr config"
    and c: "config_lacks_llm env config"
  shows "\<exists>t. t \<noteq> [] \<and> get_llm_config env w = Inr (JNull, JNull, JStr t)"
proof (cases "truthy config")
  case False
  with l show ?thesis
    by (simp add: get_llm_config_def)
next
  case True
  with c obtain kvs where k: "config = JObj kvs"
    by (cases config) (simp_all add: config_lacks_llm_def)
  let ?last = "dict_get kvs ''last_interface_format'' (JStr ''OpenAI'')"
  let ?configs = "dict_get kvs ''llm_configs'' (JObj [])"
  from c True k obtain found where f: "py_in env ?last ?configs = Inr found"
    by (cases "py_in env ?last ?configs") (simp_all add: config_lacks_llm_def)
  show ?thesis
  proof (cases found)
    case False
    with l True k f show ?thesis
      by (simp add: get_llm_config_def py_get_def)
  next
    case found: True
    with c True k f obtain cfg where
      g: "py_getitem env ?configs ?last = Inr (JObj cfg)"
      and m: "list_ex (key_missing cfg) (llm_required_keys ?last)"
      by (auto simp: config_lacks_llm_def split: sum.splits json.splits)
    from m have "filter (key_missing cfg) (llm_required_keys ?last) \<noteq> []"
      by (simp add: list_ex_iff filter_empty_conv)
    with l True k f found g show ?thesis
      by (simp add: get_llm_config_def py_get_def missing_keys_object)
  qed
qed

text \<open>
  Claim C4, as amended. Let the configuration be missing in the world in which the handler
  loads it: the document is empty, or it is an object and the selected interface is not in
  \<^verbatim>\<open>llm_configs\<close>, or the selected configuration is an object in which a required key
  (\<open>api_key\<close>, \<open>model_name\<close>, \<open>temperature\<close>, \<open>max_tokens\<close>, \<open>timeout\<close>, and \<open>base_url\<close>
  exactly when the interface is \<open>OpenAI\<close>) is absent or has a false value. Then
  \<open>get_llm_config\<close> returns a non-empty error text, and the response has status 500 with the
  message \<^verbatim>\<open>LLM Config Error: \<close> followed by that text, without any call to a library
  function,
  \<^item> on the architecture, blueprint and chapter draft routes, once the project directory
    was created;
  \<^item> on the finalize route, when the project name is a string (or absent);
  \<^item> on the consistency route, when the body passed its validation: a non-empty object, the
    project name a string (or absent), a chapter number that \<^verbatim>\<open>int\<close> accepts.
\<close>

theorem missing_configuration_is_500:
  assumes "load_config env (get_config_file_path env) w1 = Inr config"
    and "config_lacks_llm env config"
  shows "\<exists>t. get_llm_config env w1 = Inr (JNull, JNull, JStr t) \<and> t \<noteq> [] \<and>
           (dir_created env data w w1 \<longrightarrow>
              config_error_reply t (generate_architecture_api env (JObj data) w) \<and>
              config_error_reply t (generate_blueprint_api env (JObj data) w) \<and>
              config_error_reply t (generate_chapter_draft_api env (JObj data) w)) \<and>
           ((\<exists>filepath. project_dir env data = Inr filepath) \<longrightarrow>
              config_error_reply t (finalize_chapter_api env (JObj data) w1)) \<and>
           ((\<exists>filepath. project_dir env data = Inr filepath) \<and> data \<noteq> [] \<and>
            dict_get data ''chapter_number'' JNull \<noteq> JNull \<and>
            (\<exists>n. py_int env (dict_get data ''chapter_number'' JNull) = Inr n) \<longrightarrow>
              config_error_reply t (check_consistency_api env (JObj data) w1))"
proof -
  from get_llm_config_lacking [OF assms] obtain t where
    t: "t \<noteq> []" "get_llm_config env w1 = Inr (JNull, JNull, JStr t)"
    by blast
  have 1: "config_error_reply t (generate_architecture_api env (JObj data) w) \<and>
           config_error_reply t (generate_blueprint_api env (JObj data) w) \<and>
           config_error_reply t (generate_chapter_draft_api env (JObj data) w)"
    if "dir_created env data w w1"
  proof -
    from that obtain filepath where
      p: "project_dir env data = Inr filepath" "os_makedirs env filepath w = (None, w1)"
      by (rule dir_createdE)
    show ?thesis
      by (simp add: config_error_reply_def generate_architecture_api_def
            generate_blueprint_api_def generate_chapter_draft_api_def
            project_dir_def [symmetric] p t py_str_def)
  qed
  have 2: "config_error_reply t (finalize_chapter_api env (JObj data) w1)"
    if "\<exists>filepath. project_dir env data = Inr filepath"
  proof -
    from that obtain filepath where p: "project_dir env data = Inr filepath"
      by blast
    show ?thesis
      by (simp add: config_error_reply_def finalize_chapter_api_def
            project_dir_def [symmetric] p t py_str_def)
  qed
  have 3: "config_error_reply t (check_consistency_api env (JObj data) w1)"
    if "(\<exists>filepath. project_dir env data = Inr filepath) \<and> data \<noteq> [] \<and>
        dict_get data ''chapter_number'' JNull \<noteq> JNull \<and>
        (\<exists>n. py_int env (dict_get data ''chapter_number'' JNull) = Inr n)"
  proof -
    from that obtain filepath n where p: "project_dir env data = Inr filepath"
      "data \<noteq> []" "dict_get data ''chapter_number'' JNull \<noteq> JNull"
      "py_int env (dict_get data ''chapter_number'' JNull) = Inr n"
      by blast
    show ?thesis
      by (simp add: config_error_reply_def check_consistency_api_def
            project_dir_def [symmetric] p t py_str_def)
  qed
  from t 1 2 3 show ?thesis
    by blast
qed

theorem missing_configuration_is_500_witness:
  "load_config test_env (get_config_file_path test_env) no_config_world = Inr (JObj []) \<and>
   config_lacks_llm test_env (JObj []) \<and>
   (\<exists>t. get_llm_config test_env no_config_world = Inr (JNull, JNull, JStr t) \<and> t \<noteq> [] \<and>
      config_error_reply t (generate_architecture_api test_env (JObj test_bare_data) no_config_world) \<and>
      config_error_reply t (generate_blueprint_api test_env (JObj test_bare_data) no_config_world) \<and>
      config_error_reply t (generate_chapter_draft_api test_env (JObj test_bare_data) no_config_world) \<and>
      config_error_reply t (finalize_chapter_api test_env (JObj test_bare_data) no_config_world))"
proof -
  have l: "load_config test_env (get_config_file_path test_env) no_config_world = Inr (JObj [])"
    by code_simp
  have c: "config_lacks_llm test_env (JObj [])"
    by code_simp
  have p: "project_dir test_env test_bare_data = Inr ''test_novel_projects/default_project_test''"
    by code_simp
  have "os_makedirs test_env ''test_novel_projects/default_project_test'' no_config_world =
          (None, no_config_world)"
    by (simp add: os_makedirs_def no_config_world_def test_world_def)
  with p have d: "dir_created test_env test_bare_data no_config_world no_config_world"
    by (simp add: dir_created_def)
  from missing_configuration_is_500 [OF l c, of test_bare_data no_config_world] p d l c
  show ?thesis
    by auto
qed

text \<open>
  The claim as first stated has no condition on the body. The consistency route validates
  the body before it loads the configuration: without a configuration document, a body
  that lacks \<open>chapter_number\<close> is answered with status 400.
\<close>

theorem missing_configuration_counterexample:
  "load_config test_env (get_config_file_path test_env) no_config_world = Inr (JObj []) \<and>
   reply (check_consistency_api test_env (JObj test_bare_data) no_config_world) =
     Inr (error_response 400 ''Missing 'chapter_number'.'')"
  by code_simp

end
